theory Spec2Isabelle
  imports Complex_Main
begin

section \<open>CodeBLEU evaluator: a shallow embedding of codebleu\_evaluator.py\<close>

text \<open>
  A Python float is modelled by the real number it denotes. The scores are computed in
  real arithmetic, without rounding. The check of the weights in the constructor is the
  one place where rounding decides between raising and returning: there the rounded
  operations on floats are parameters of the model. Python's unbounded integers are
  \<open>int\<close> and \<open>nat\<close>, lists are lists, exceptions are the left summand of a sum type.
\<close>

subsection \<open>Exceptions\<close>

text \<open>
  \<open>SyntaxError\<close> stands for the class and its subclasses (what \<open>except SyntaxError\<close>
  catches); \<open>OtherException\<close> for any other subclass of \<open>Exception\<close>, by name.
\<close>

datatype py_error =
    SyntaxError
  | ValueError string
  | ZeroDivisionError
  | OtherException string

subsection \<open>Counters of n-grams\<close>

type_synonym token = string
type_synonym ngram = "token list"

text \<open>
  \<open>collections.Counter(xs)\<close>: the distinct elements of \<open>xs\<close> in order of first
  occurrence, each with its number of occurrences.
\<close>

type_synonym 'k counter = "('k \<times> nat) list"

definition Counter :: "'k list \<Rightarrow> 'k counter" where
  "Counter xs = map (\<lambda>k. (k, count_list xs k)) (rev (remdups (rev xs)))"

text \<open>
  \<open>_get_ngrams(tokens, n)\<close>: the slices \<open>tokens[i:i + n]\<close> for
  \<open>i\<close> in \<open>range(len(tokens) - n + 1)\<close>, counted. Every caller passes \<open>n \<ge> 1\<close>.
\<close>

definition get_ngrams :: "token list \<Rightarrow> nat \<Rightarrow> ngram counter" where
  "get_ngrams tokens n =
     Counter (map (\<lambda>i. take n (drop i tokens))
                  [0 ..< nat (int (length tokens) - int n + 1)])"

subsection \<open>N-gram BLEU\<close>

text \<open>
  The \<open>defaultdict(int)\<close> of maximal reference counts: a total function with default 0,
  raised entry by entry over the items of every reference counter.
\<close>

definition max_counts_of :: "ngram counter list \<Rightarrow> ngram \<Rightarrow> nat" where
  "max_counts_of reference_ngrams =
     fold (\<lambda>ref_ngrams mc.
             fold (\<lambda>(ngram, count) mc'. mc'(ngram := max (mc' ngram) count)) ref_ngrams mc)
          reference_ngrams (\<lambda>_. 0)"

text \<open>One pass of the loop over \<open>n\<close>: the value appended to \<open>precisions\<close>.\<close>

definition ngram_precision :: "token list \<Rightarrow> token list list \<Rightarrow> nat \<Rightarrow> real" where
  "ngram_precision candidate references n =
     (let candidate_ngrams = get_ngrams candidate n;
          reference_ngrams = map (\<lambda>ref. get_ngrams ref n) references
      in if candidate_ngrams = [] then 0
         else
           let max_counts = max_counts_of reference_ngrams;
               total = sum_list (map snd candidate_ngrams);
               correct = sum_list (map (\<lambda>(ngram, count). min count (max_counts ngram))
                                       candidate_ngrams)
           in if total > 0 then real correct / real total else 0)"

text \<open>
  \<open>min(xs, key=f)\<close>: the first element with the least key; \<open>ValueError\<close> on an
  empty sequence.
\<close>

definition py_min_key :: "('a \<Rightarrow> int) \<Rightarrow> 'a list \<Rightarrow> py_error + 'a" where
  "py_min_key f xs =
     (case xs of
        [] \<Rightarrow> Inl (ValueError ''min() arg is an empty sequence'')
      | y # ys \<Rightarrow> Inr (fold (\<lambda>z best. if f z < f best then z else best) ys y))"

definition calculate_bleu_score :: "token list \<Rightarrow> token list list \<Rightarrow> int \<Rightarrow> py_error + real" where
  "calculate_bleu_score candidate references max_n =
     (if candidate = [] \<or> references = [] then Inr 0
      else
        let precisions = map (\<lambda>n. ngram_precision candidate references (nat n)) [1 .. max_n];
            candidate_length = int (length candidate)
        in case py_min_key (\<lambda>ref. \<bar>int (length ref) - candidate_length\<bar>) references of
             Inl e \<Rightarrow> Inl e
           | Inr closest_ref_length \<Rightarrow>
               let reference_length = int (length closest_ref_length);
                   brevity_penalty =
                     (if candidate_length > reference_length then 1
                      else if candidate_length > 0
                           then exp (1 - real_of_int reference_length / real_of_int candidate_length)
                           else 0)
               in if list_ex (\<lambda>p. p = 0) precisions then Inr 0
                  else if list_ex (\<lambda>p. p < 0) precisions
                       then Inl (ValueError ''math domain error'')
                  else if precisions = [] then Inl ZeroDivisionError
                  else
                    let log_precision_sum = sum_list (map ln precisions);
                        geo_mean = exp (log_precision_sum / real (length precisions))
                    in Inr (brevity_penalty * geo_mean))"

subsection \<open>The evaluator and its construction\<close>

record weight_vector =
  alpha :: real
  beta :: real
  gamma :: real
  delta :: real

text \<open>
  The instance: the four weights and the keyword table, a dict from language names to
  sets of keywords (an association list from names to the members of each set).
\<close>

record evaluator = weight_vector +
  keywords_dict :: "(string \<times> string list) list"

text \<open>
  Addition, subtraction and multiplication of floats: each takes two floats to the float
  that the machine returns, all as real numbers. Sums that overflow are outside the
  model.
\<close>

record float_ops =
  fadd :: "real \<Rightarrow> real \<Rightarrow> real"
  fsub :: "real \<Rightarrow> real \<Rightarrow> real"
  fmul :: "real \<Rightarrow> real \<Rightarrow> real"

text \<open>The float that the literal \<open>1e-9\<close> denotes: the double nearest to \<open>1/10^9\<close>.\<close>

definition float_1e_9 :: real where
  "float_1e_9 = 4835703278458517 / 2 ^ 82"

text \<open>
  \<open>math.isclose(a, b, rel_tol=r, abs_tol=t)\<close> on finite floats, as CPython computes it:
  equal arguments are close; otherwise the rounded difference is compared with the
  rounded products of the relative tolerance with either argument, and with the absolute
  tolerance.
\<close>

definition math_isclose :: "float_ops \<Rightarrow> real \<Rightarrow> real \<Rightarrow> real \<Rightarrow> real \<Rightarrow> bool" where
  "math_isclose fp a b rel_tol abs_tol =
     (if a = b then True
      else
        let diff = \<bar>fsub fp b a\<bar>
        in (diff \<le> \<bar>fmul fp rel_tol b\<bar> \<or> diff \<le> \<bar>fmul fp rel_tol a\<bar>) \<or> diff \<le> abs_tol)"

text \<open>The float \<open>alpha + beta + gamma + delta\<close>, added from left to right.\<close>

definition weight_sum :: "float_ops \<Rightarrow> real \<Rightarrow> real \<Rightarrow> real \<Rightarrow> real \<Rightarrow> real" where
  "weight_sum fp a b c d = fadd fp (fadd fp (fadd fp a b) c) d"

definition keyword_table :: "(string \<times> string list) list" where
  "keyword_table =
     [(''python'',
        [''def'', ''class'', ''if'', ''else'', ''elif'', ''for'', ''while'', ''try'', ''except'',
         ''finally'', ''with'', ''import'', ''from'', ''return'', ''yield'', ''lambda'',
         ''and'', ''or'', ''not'', ''in'', ''is'', ''global'', ''nonlocal'', ''assert'',
         ''break'', ''continue'', ''pass'', ''raise'', ''del'', ''True'', ''False'', ''None'']),
      (''javascript'',
        [''function'', ''var'', ''let'', ''const'', ''if'', ''else'', ''for'', ''while'', ''do'',
         ''switch'', ''case'', ''default'', ''break'', ''continue'', ''return'', ''try'', ''catch'',
         ''finally'', ''throw'', ''new'', ''this'', ''typeof'', ''instanceof'', ''in'', ''of'',
         ''true'', ''false'', ''null'', ''undefined'', ''class'', ''extends'', ''super'',
         ''static'', ''async'', ''await'', ''yield'', ''import'', ''export'', ''from'']),
      (''java'',
        [''class'', ''interface'', ''enum'', ''public'', ''private'', ''protected'', ''static'',
         ''final'', ''abstract'', ''synchronized'', ''volatile'', ''transient'', ''native'',
         ''if'', ''else'', ''for'', ''while'', ''do'', ''switch'', ''case'', ''default'',
         ''break'', ''continue'', ''return'', ''try'', ''catch'', ''finally'', ''throw'',
         ''throws'', ''new'', ''this'', ''super'', ''instanceof'', ''true'', ''false'', ''null''])]"

text \<open>
  \<open>CodeBLEUEvaluator.__init__\<close>: raises unless the float sum of the weights is close to
  1.0, with relative tolerance \<open>1e-9\<close> and the default absolute tolerance 0.0.
\<close>

definition init :: "float_ops \<Rightarrow> real \<Rightarrow> real \<Rightarrow> real \<Rightarrow> real \<Rightarrow> py_error + evaluator" where
  "init fp a b c d =
     (if \<not> math_isclose fp (weight_sum fp a b c d) 1 float_1e_9 0
      then Inl (ValueError ''Weights must sum to 1.0'')
      else Inr \<lparr>alpha = a, beta = b, gamma = c, delta = d, keywords_dict = keyword_table\<rparr>)"

subsection \<open>Keyword-weighted BLEU\<close>

text \<open>\<open>self.keywords.get(language, set())\<close>.\<close>

definition keywords_get :: "evaluator \<Rightarrow> string \<Rightarrow> string set" where
  "keywords_get self lang =
     (case map_of (keywords_dict self) lang of None \<Rightarrow> {} | Some ks \<Rightarrow> set ks)"

definition weight_tokens :: "string set \<Rightarrow> token list \<Rightarrow> token list" where
  "weight_tokens kws tokens =
     concat (map (\<lambda>token. if token \<in> kws then [token, token] else [token]) tokens)"

definition calculate_weighted_bleu_score ::
  "evaluator \<Rightarrow> token list \<Rightarrow> token list list \<Rightarrow> string \<Rightarrow> py_error + real" where
  "calculate_weighted_bleu_score self candidate references lang =
     (let kws = keywords_get self lang;
          weighted_candidate = weight_tokens kws candidate;
          weighted_references = map (weight_tokens kws) references
      in calculate_bleu_score weighted_candidate weighted_references 4)"

subsection \<open>The Python library\<close>

text \<open>
  The functions of Python's standard library that the evaluator calls on source text are
  parameters of the model: regular-expression search and substitution, the string methods
  \<open>lower\<close> and \<open>strip\<close>, and the parser \<open>ast.parse\<close>. Every property below holds for
  all values of these parameters. Patterns are given as syntax trees.
\<close>

datatype regex =
    Lit string
  | WordChar
  | Whitespace
  | AnyChar
  | NotWordNorSpace
  | NoneOf string
  | WordBoundary
  | EndOfLine
  | Star regex
  | Plus regex
  | LazyStar regex
  | Group regex
  | Seq "regex list"
  | Alt regex regex

datatype re_flag = MULTILINE | DOTALL | IGNORECASE

text \<open>A syntax tree: the class name of a node and its child nodes, in field order.\<close>

datatype ast = Node string "ast list"

record pylib =
  re_sub :: "regex \<Rightarrow> string \<Rightarrow> string \<Rightarrow> re_flag list \<Rightarrow> string"
  re_findall :: "regex \<Rightarrow> string \<Rightarrow> re_flag list \<Rightarrow> string list"
  str_lower :: "string \<Rightarrow> string"
  str_strip :: "string \<Rightarrow> string"
  ast_parse :: "string \<Rightarrow> py_error + ast"

text \<open>\<open>sub in s\<close> on strings.\<close>

primrec str_contains :: "string \<Rightarrow> string \<Rightarrow> bool" where
  "str_contains [] sub = (sub = [])"
| "str_contains (c # cs) sub = (take (length sub) (c # cs) = sub \<or> str_contains cs sub)"

subsection \<open>Tokenizer\<close>

definition tokenize_code :: "pylib \<Rightarrow> string \<Rightarrow> string \<Rightarrow> token list" where
  "tokenize_code lib code lang =
     (let code1 =
            (if lang = ''python''
             then re_sub lib (Seq [Lit ''#'', Star AnyChar, EndOfLine]) [] code [MULTILINE]
             else if lang \<in> set [''javascript'', ''java'']
             then
               (let code2 = re_sub lib (Seq [Lit ''//'', Star AnyChar, EndOfLine]) [] code
                                   [MULTILINE]
                in re_sub lib (Seq [Lit ''/*'', LazyStar AnyChar, Lit ''*/'']) [] code2 [DOTALL])
             else code);
          tokens = re_findall lib
                     (Alt (Seq [WordBoundary, Plus WordChar, WordBoundary]) NotWordNorSpace)
                     (str_lower lib code1) []
      in filter (\<lambda>token. str_strip lib token \<noteq> []) tokens)"

subsection \<open>Structural matcher\<close>

text \<open>
  The score of one reference, written out three times in the source (in
  \<open>_calculate_python_ast_score\<close>, \<open>_calculate_structural_similarity\<close> and
  \<open>calculate_control_flow_score\<close>): 1.0 when both lists are empty, 0.0 when one is, else
  the number of common distinct elements over the number of distinct elements.
\<close>

definition similarity_score :: "string list \<Rightarrow> string list \<Rightarrow> real" where
  "similarity_score candidate_items ref_items =
     (if candidate_items = [] \<and> ref_items = [] then 1
      else if candidate_items = [] \<or> ref_items = [] then 0
      else
        let common = card (set candidate_items \<inter> set ref_items);
            total = card (set candidate_items \<union> set ref_items)
        in if total > 0 then real common / real total else 0)"

text \<open>\<open>ast.walk\<close>: the nodes of a tree in breadth-first order, from a queue.\<close>

fun ast_size :: "ast \<Rightarrow> nat" where
  "ast_size (Node t children) = Suc (sum_list (map ast_size children))"

function ast_walk_queue :: "ast list \<Rightarrow> ast list" where
  "ast_walk_queue [] = []"
| "ast_walk_queue (Node t children # todo) = Node t children # ast_walk_queue (todo @ children)"
  by pat_completeness auto
termination
  by (relation "measure (\<lambda>todo. sum_list (map ast_size todo))") auto

definition ast_walk :: "ast \<Rightarrow> ast list" where
  "ast_walk tree = ast_walk_queue [tree]"

fun type_name :: "ast \<Rightarrow> string" where
  "type_name (Node t children) = t"

definition extract_ast_nodes :: "ast \<Rightarrow> string list" where
  "extract_ast_nodes tree = map type_name (ast_walk tree)"

text \<open>
  The loop of \<open>_calculate_python_ast_score\<close> over the references, with \<open>max_score\<close> as
  accumulator: a reference that does not parse is skipped, any other exception leaves
  the loop.
\<close>

fun python_ast_loop :: "pylib \<Rightarrow> string list \<Rightarrow> string list \<Rightarrow> real \<Rightarrow> py_error + real" where
  "python_ast_loop lib candidate_nodes [] max_score = Inr max_score"
| "python_ast_loop lib candidate_nodes (ref_code # rest) max_score =
     (case ast_parse lib ref_code of
        Inl SyntaxError \<Rightarrow> python_ast_loop lib candidate_nodes rest max_score
      | Inl e \<Rightarrow> Inl e
      | Inr ref_ast \<Rightarrow>
          let ref_nodes = extract_ast_nodes ref_ast;
              score = similarity_score candidate_nodes ref_nodes
          in python_ast_loop lib candidate_nodes rest (max max_score score))"

definition calculate_python_ast_score :: "pylib \<Rightarrow> string \<Rightarrow> string list \<Rightarrow> py_error + real" where
  "calculate_python_ast_score lib candidate_code reference_codes =
     (case ast_parse lib candidate_code of
        Inl SyntaxError \<Rightarrow> Inr 0
      | Inl e \<Rightarrow> Inl e
      | Inr candidate_ast \<Rightarrow>
          python_ast_loop lib (extract_ast_nodes candidate_ast) reference_codes 0)"

definition extract_code_structures :: "pylib \<Rightarrow> string \<Rightarrow> string \<Rightarrow> string list" where
  "extract_code_structures lib code lang =
     (if lang = ''javascript'' then
        re_findall lib (Seq [Lit ''function'', Plus Whitespace, Group (Plus WordChar)]) code []
        @ re_findall lib (Seq [Lit ''class'', Plus Whitespace, Group (Plus WordChar)]) code []
        @ re_findall lib (Seq [Group (Plus WordChar), Star Whitespace, Lit '':'',
                               Star Whitespace, Lit ''function'']) code []
        @ re_findall lib (Seq [Lit ''const'', Plus Whitespace, Group (Plus WordChar),
                               Star Whitespace, Lit ''='', Star Whitespace, Lit ''('',
                               Star (NoneOf '')''), Lit '')'', Star Whitespace, Lit ''=>''])
                     code []
      else if lang = ''java'' then
        re_findall lib (Seq [Lit ''class'', Plus Whitespace, Group (Plus WordChar)]) code []
        @ re_findall lib (Seq [Lit ''interface'', Plus Whitespace, Group (Plus WordChar)]) code []
        @ re_findall lib (Seq [Lit ''public'', Plus Whitespace, Plus WordChar, Plus Whitespace,
                               Group (Plus WordChar), Star Whitespace, Lit ''('']) code []
        @ re_findall lib (Seq [Lit ''private'', Plus Whitespace, Plus WordChar, Plus Whitespace,
                               Group (Plus WordChar), Star Whitespace, Lit ''('']) code []
      else [])"

definition calculate_structural_similarity :: "pylib \<Rightarrow> string \<Rightarrow> string list \<Rightarrow> string \<Rightarrow> real" where
  "calculate_structural_similarity lib candidate references lang =
     (let candidate_structures = extract_code_structures lib candidate lang
      in fold (\<lambda>ref max_score.
                 let ref_structures = extract_code_structures lib ref lang;
                     score = similarity_score candidate_structures ref_structures
                 in max max_score score)
              references 0)"

definition calculate_ast_matching_score ::
  "pylib \<Rightarrow> string \<Rightarrow> string list \<Rightarrow> string \<Rightarrow> py_error + real" where
  "calculate_ast_matching_score lib candidate_code reference_codes lang =
     (if lang = ''python'' then calculate_python_ast_score lib candidate_code reference_codes
      else Inr (calculate_structural_similarity lib candidate_code reference_codes lang))"

subsection \<open>Control-flow matcher\<close>

definition control_flow_patterns :: "regex list" where
  "control_flow_patterns =
     [Seq [WordBoundary, Lit ''if'', Star Whitespace, Lit ''(''],
      Seq [WordBoundary, Lit ''else'', WordBoundary],
      Seq [WordBoundary, Lit ''elif'', Star Whitespace, Lit ''(''],
      Seq [WordBoundary, Lit ''for'', Star Whitespace, Lit ''(''],
      Seq [WordBoundary, Lit ''while'', Star Whitespace, Lit ''(''],
      Seq [WordBoundary, Lit ''try'', WordBoundary],
      Seq [WordBoundary, Lit ''catch'', WordBoundary],
      Seq [WordBoundary, Lit ''finally'', WordBoundary],
      Seq [WordBoundary, Lit ''switch'', Star Whitespace, Lit ''(''],
      Seq [WordBoundary, Lit ''case'', Plus Whitespace],
      Seq [WordBoundary, Lit ''break'', WordBoundary],
      Seq [WordBoundary, Lit ''continue'', WordBoundary],
      Seq [WordBoundary, Lit ''return'', WordBoundary]]"

definition extract_control_flow :: "pylib \<Rightarrow> string \<Rightarrow> string \<Rightarrow> string list" where
  "extract_control_flow lib code lang =
     concat (map (\<lambda>pattern. re_findall lib pattern code [IGNORECASE]) control_flow_patterns)"

definition calculate_control_flow_score :: "pylib \<Rightarrow> string \<Rightarrow> string list \<Rightarrow> string \<Rightarrow> real" where
  "calculate_control_flow_score lib candidate_code reference_codes lang =
     (let candidate_cf = extract_control_flow lib candidate_code lang
      in fold (\<lambda>ref_code max_score.
                 let ref_cf = extract_control_flow lib ref_code lang;
                     score = similarity_score candidate_cf ref_cf
                 in max max_score score)
              reference_codes 0)"

subsection \<open>Composite scorer\<close>

definition detect_language :: "string \<Rightarrow> string" where
  "detect_language code =
     (if list_ex (\<lambda>indicator. str_contains code indicator)
           [''def '', ''import '', ''from '', ''__init__'', ''self.'']
      then ''python''
      else if list_ex (\<lambda>indicator. str_contains code indicator)
           [''function '', ''var '', ''let '', ''const '', ''=>'']
      then ''javascript''
      else if list_ex (\<lambda>indicator. str_contains code indicator)
           [''public class'', ''private '', ''public static void'']
      then ''java''
      else ''python'')"

text \<open>The dictionary that \<open>evaluate\<close> returns, one field for each key.\<close>

record evaluation_result =
  codebleu :: real
  bleu :: real
  weighted_bleu :: real
  ast_match :: real
  control_flow :: real
  language :: string
  weights :: weight_vector

text \<open>The argument \<open>reference_codes\<close> is one string or a list of strings.\<close>

datatype str_or_list = Str string | StrList "string list"

definition evaluate ::
  "evaluator \<Rightarrow> pylib \<Rightarrow> string \<Rightarrow> str_or_list \<Rightarrow> string option
     \<Rightarrow> py_error + evaluation_result" where
  "evaluate self lib candidate_code reference_codes0 language0 =
     (let reference_codes = (case reference_codes0 of Str s \<Rightarrow> [s] | StrList l \<Rightarrow> l);
          lang = (case language0 of None \<Rightarrow> detect_language candidate_code | Some l \<Rightarrow> l);
          candidate_tokens = tokenize_code lib candidate_code lang;
          reference_tokens_list = map (\<lambda>ref. tokenize_code lib ref lang) reference_codes
      in case calculate_bleu_score candidate_tokens reference_tokens_list 4 of
           Inl e \<Rightarrow> Inl e
         | Inr bleu_score \<Rightarrow>
        (case calculate_weighted_bleu_score self candidate_tokens reference_tokens_list lang of
           Inl e \<Rightarrow> Inl e
         | Inr weighted_bleu_score \<Rightarrow>
        (case calculate_ast_matching_score lib candidate_code reference_codes lang of
           Inl e \<Rightarrow> Inl e
         | Inr ast_score \<Rightarrow>
        (let cf_score = calculate_control_flow_score lib candidate_code reference_codes lang;
             codebleu_score =
               alpha self * bleu_score + beta self * weighted_bleu_score
               + gamma self * ast_score + delta self * cf_score
         in Inr \<lparr>codebleu = codebleu_score,
                 bleu = bleu_score,
                 weighted_bleu = weighted_bleu_score,
                 ast_match = ast_score,
                 control_flow = cf_score,
                 language = lang,
                 weights = \<lparr>alpha = alpha self, beta = beta self,
                            gamma = gamma self, delta = delta self\<rparr>\<rparr>))))"

subsection \<open>Dataset aggregator\<close>

text \<open>One element of \<open>self.results\<close>.\<close>

record result_entry =
  index :: nat
  scores :: evaluation_result
  generated_code :: string
  reference_code :: string

datatype metric = Codebleu | Bleu | Weighted_bleu | Ast_match | Control_flow

fun score_of :: "evaluation_result \<Rightarrow> metric \<Rightarrow> real" where
  "score_of r Codebleu = codebleu r"
| "score_of r Bleu = bleu r"
| "score_of r Weighted_bleu = weighted_bleu r"
| "score_of r Ast_match = ast_match r"
| "score_of r Control_flow = control_flow r"

record metric_stats =
  mean :: real
  max_value :: real
  min_value :: real
  std :: real

text \<open>
  The dictionary built for one metric. The entry for the mean is evaluated first, so an
  empty list of values raises \<open>ZeroDivisionError\<close>. The power \<open>** 0.5\<close> is applied to a
  mean of squares, which is never negative: it is the square root.
\<close>

definition stats_of_values :: "real list \<Rightarrow> py_error + metric_stats" where
  "stats_of_values values =
     (case values of
        [] \<Rightarrow> Inl ZeroDivisionError
      | v # vs \<Rightarrow>
          Inr \<lparr>mean = sum_list values / real (length values),
               max_value = fold max vs v,
               min_value = fold min vs v,
               std = sqrt (sum_list (map (\<lambda>x. (x - sum_list values / real (length values))\<^sup>2)
                                         values)
                           / real (length values))\<rparr>)"

text \<open>The loop over the metric names, filling the dictionary in order.\<close>

fun aggregate_metrics ::
  "evaluation_result list \<Rightarrow> metric list \<Rightarrow> py_error + (metric \<times> metric_stats) list" where
  "aggregate_metrics individual_scores [] = Inr []"
| "aggregate_metrics individual_scores (m # ms) =
     (case stats_of_values (map (\<lambda>scores. score_of scores m) individual_scores) of
        Inl e \<Rightarrow> Inl e
      | Inr st \<Rightarrow>
          (case aggregate_metrics individual_scores ms of
             Inl e \<Rightarrow> Inl e
           | Inr rest \<Rightarrow> Inr ((m, st) # rest)))"

record aggregated =
  metric_table :: "(metric \<times> metric_stats) list"
  total_pairs :: nat
  evaluation_time :: string

text \<open>
  The loop over \<open>enumerate(dataset)\<close>: the state is the list \<open>individual_scores\<close> and the
  list \<open>self.results\<close>; an exception of \<open>evaluate\<close> is caught and the pair left out.
\<close>

fun evaluate_pairs ::
  "evaluator \<Rightarrow> pylib \<Rightarrow> nat \<Rightarrow> (string \<times> string) list
     \<Rightarrow> evaluation_result list \<times> result_entry list
     \<Rightarrow> evaluation_result list \<times> result_entry list" where
  "evaluate_pairs ev lib i [] st = st"
| "evaluate_pairs ev lib i ((generated, reference) # rest) (individual_scores, results) =
     (case evaluate ev lib generated (Str reference) None of
        Inr sc \<Rightarrow>
          evaluate_pairs ev lib (Suc i) rest
            (individual_scores @ [sc],
             results @ [\<lparr>index = i, scores = sc,
                          generated_code = generated, reference_code = reference\<rparr>])
      | Inl e \<Rightarrow> evaluate_pairs ev lib (Suc i) rest (individual_scores, results))"

text \<open>
  \<open>evaluate_dataset\<close>: takes the evaluator held by the instance, the list
  \<open>self.results\<close> and the clock reading, returns the summary (\<open>None\<close> for the empty
  dictionary) and the new \<open>self.results\<close>.
\<close>

definition evaluate_dataset ::
  "evaluator \<Rightarrow> pylib \<Rightarrow> string \<Rightarrow> result_entry list \<Rightarrow> (string \<times> string) list
     \<Rightarrow> (py_error + aggregated option) \<times> result_entry list" where
  "evaluate_dataset ev lib now results dataset =
     (if dataset = [] then (Inr None, results)
      else
        case evaluate_pairs ev lib 0 dataset ([], results) of
          (individual_scores, results') \<Rightarrow>
            if individual_scores = [] then (Inr None, results')
            else
              (case aggregate_metrics individual_scores
                      [Codebleu, Bleu, Weighted_bleu, Ast_match, Control_flow] of
                 Inl e \<Rightarrow> (Inl e, results')
               | Inr table \<Rightarrow>
                   (Inr (Some \<lparr>metric_table = table,
                                total_pairs = length individual_scores,
                                evaluation_time = now\<rparr>),
                    results')))"

subsection \<open>Notions used in the statements\<close>

text \<open>
  The accuracy of float operations that round to nearest: the error of a sum or a
  difference is at most \<open>2^-53\<close> of the exact value, that of a product at most \<open>2^-53\<close> of
  the exact value plus an absolute error on underflow (at most \<open>2^-1075\<close> for doubles;
  the bound \<open>10^-100\<close> asks less). IEEE double arithmetic meets these bounds on doubles
  wherever the exact result is at most \<open>10^100\<close> in magnitude, which excludes overflow.
\<close>

definition float_accurate :: "float_ops \<Rightarrow> bool" where
  "float_accurate fp =
     ((\<forall>x y. \<bar>x + y\<bar> \<le> 10 ^ 100 \<longrightarrow> \<bar>fadd fp x y - (x + y)\<bar> \<le> \<bar>x + y\<bar> / 2 ^ 53)
      \<and> (\<forall>x y. \<bar>x - y\<bar> \<le> 10 ^ 100 \<longrightarrow> \<bar>fsub fp x y - (x - y)\<bar> \<le> \<bar>x - y\<bar> / 2 ^ 53)
      \<and> (\<forall>x y. \<bar>x * y\<bar> \<le> 10 ^ 100 \<longrightarrow>
             \<bar>fmul fp x y - x * y\<bar> \<le> \<bar>x * y\<bar> / 2 ^ 53 + 1 / 10 ^ 100))"

text \<open>The parser raises, on this source, an exception that is not a \<open>SyntaxError\<close>.\<close>

definition raises_other :: "pylib \<Rightarrow> string \<Rightarrow> bool" where
  "raises_other lib code =
     (case ast_parse lib code of Inl SyntaxError \<Rightarrow> False | Inl e \<Rightarrow> True | Inr t \<Rightarrow> False)"

text \<open>The node-type lists of the sources that parse, in order.\<close>

definition parsed_nodes :: "pylib \<Rightarrow> string list \<Rightarrow> string list list" where
  "parsed_nodes lib codes =
     concat (map (\<lambda>code. case ast_parse lib code of
                            Inr t \<Rightarrow> [extract_ast_nodes t] | Inl e \<Rightarrow> []) codes)"

text \<open>The results of the pairs of a dataset whose evaluation returns, in order.\<close>

definition successful_scores ::
  "evaluator \<Rightarrow> pylib \<Rightarrow> (string \<times> string) list \<Rightarrow> evaluation_result list" where
  "successful_scores ev lib dataset =
     concat (map (\<lambda>(generated, reference).
                    case evaluate ev lib generated (Str reference) None of
                      Inr sc \<Rightarrow> [sc] | Inl e \<Rightarrow> []) dataset)"

text \<open>
  The statistics as the specification words them: arithmetic mean, greatest and least
  value, and the population standard deviation, the square root of the mean squared
  deviation from the mean (the divisor is the number of values). The sample standard
  deviation, with the divisor reduced by one, is given for comparison.
\<close>

definition arithmetic_mean :: "real list \<Rightarrow> real" where
  "arithmetic_mean xs = sum_list xs / real (length xs)"

definition population_std :: "real list \<Rightarrow> real" where
  "population_std xs =
     sqrt ((\<Sum>x\<leftarrow>xs. (x - arithmetic_mean xs)\<^sup>2) / real (length xs))"

definition sample_std :: "real list \<Rightarrow> real" where
  "sample_std xs =
     sqrt ((\<Sum>x\<leftarrow>xs. (x - arithmetic_mean xs)\<^sup>2) / real (length xs - 1))"

definition spec_stats :: "real list \<Rightarrow> metric_stats" where
  "spec_stats xs =
     \<lparr>mean = arithmetic_mean xs, max_value = Max (set xs), min_value = Min (set xs),
      std = population_std xs\<rparr>"

subsection \<open>A sample library\<close>

text \<open>
  Concrete values of the library parameters for the worked examples: what CPython
  returns on the sources below. None of these sources has a comment or an upper-case
  letter, so substitution of comments and \<open>lower\<close> leave them as they are. The source
  \<open>src_deep\<close>, the number 1 under 100000 unary minus signs, is nested too deeply for the
  parser, which raises \<open>MemoryError\<close> and not a \<open>SyntaxError\<close>. Outside the tables the
  sample finds no match and accepts no source.
\<close>

definition src_py :: string where
  "src_py = ''def f(): return 1''"

definition src_bad :: string where
  "src_bad = ''def (''"

definition src_js :: string where
  "src_js = ''function f(){return 1;}''"

definition src_deep :: string where
  "src_deep = replicate 100000 (CHR ''-'') @ ''1''"

definition token_pattern :: regex where
  "token_pattern = Alt (Seq [WordBoundary, Plus WordChar, WordBoundary]) NotWordNorSpace"

definition return_pattern :: regex where
  "return_pattern = Seq [WordBoundary, Lit ''return'', WordBoundary]"

definition function_pattern :: regex where
  "function_pattern = Seq [Lit ''function'', Plus Whitespace, Group (Plus WordChar)]"

definition sample_findall_table :: "((regex \<times> string \<times> re_flag list) \<times> string list) list" where
  "sample_findall_table =
     [((token_pattern, src_deep, []), replicate 100000 ''-'' @ [''1'']),
      ((token_pattern, src_py, []), [''def'', ''f'', ''('', '')'', '':'', ''return'', ''1'']),
      ((token_pattern, src_bad, []), [''def'', ''(''] ),
      ((token_pattern, src_js, []),
         [''function'', ''f'', ''('', '')'', ''{'', ''return'', ''1'', '';'', ''}'']),
      ((return_pattern, src_py, [IGNORECASE]), [''return'']),
      ((return_pattern, src_js, [IGNORECASE]), [''return'']),
      ((function_pattern, src_js, []), [''f''])]"

definition sample_parse_table :: "(string \<times> (py_error + ast)) list" where
  "sample_parse_table =
     [(src_deep, Inl (OtherException ''MemoryError'')),
      (src_py, Inr (Node ''Module''
                     [Node ''FunctionDef''
                        [Node ''arguments'' [],
                         Node ''Return'' [Node ''Constant'' []]]])),
      (src_bad, Inl SyntaxError),
      (src_js, Inl SyntaxError)]"

definition sample_lib :: pylib where
  "sample_lib =
     \<lparr>re_sub = (\<lambda>pattern repl text flags. text),
      re_findall = (\<lambda>pattern text flags.
         case map_of sample_findall_table (pattern, text, flags) of
           None \<Rightarrow> [] | Some matches \<Rightarrow> matches),
      str_lower = (\<lambda>text. text),
      str_strip = (\<lambda>text. rev (dropWhile (\<lambda>c. c \<in> set [CHR '' '', CHR 0x09, CHR 0x0A,
                                                            CHR 0x0B, CHR 0x0C, CHR 0x0D])
                            (rev (dropWhile (\<lambda>c. c \<in> set [CHR '' '', CHR 0x09, CHR 0x0A,
                                                            CHR 0x0B, CHR 0x0C, CHR 0x0D])
                                   text)))),
      ast_parse = (\<lambda>code.
         case map_of sample_parse_table code of
           None \<Rightarrow> Inl SyntaxError | Some outcome \<Rightarrow> outcome)\<rparr>"

text \<open>
  Sample float operations: what IEEE double arithmetic returns on the operands that occur
  when the constructor is given four times the float that \<open>0.3\<close> denotes, or four times
  \<open>0.25\<close>. The two sums and the product in the tables are rounded; on all other operands
  the sample computes exactly, as double arithmetic does for the remaining operations of
  these two examples.
\<close>

definition float_0_3 :: real where
  "float_0_3 = 5404319552844595 / 2 ^ 54"

definition sample_fadd_table :: "((real \<times> real) \<times> real) list" where
  "sample_fadd_table =
     [((5404319552844595 / 2 ^ 53, float_0_3), 2026619832316723 / 2 ^ 51),
      ((2026619832316723 / 2 ^ 51, float_0_3), 5404319552844595 / 2 ^ 52)]"

definition sample_fmul_table :: "((real \<times> real) \<times> real) list" where
  "sample_fmul_table =
     [((float_1e_9, 5404319552844595 / 2 ^ 52), 1450710983537555 / 2 ^ 80)]"

definition sample_fp :: float_ops where
  "sample_fp =
     \<lparr>fadd = (\<lambda>x y. case map_of sample_fadd_table (x, y) of None \<Rightarrow> x + y | Some v \<Rightarrow> v),
      fsub = (\<lambda>x y. x - y),
      fmul = (\<lambda>x y. case map_of sample_fmul_table (x, y) of None \<Rightarrow> x * y | Some v \<Rightarrow> v)\<rparr>"

definition default_evaluator :: evaluator where
  "default_evaluator =
     \<lparr>alpha = 1 / 4, beta = 1 / 4, gamma = 1 / 4, delta = 1 / 4, keywords_dict = keyword_table\<rparr>"

text \<open>
  An evaluator whose weights sum to 1.2: no result of the constructor, but a state an
  instance can be in, since its attributes are assignable.
\<close>

definition unchecked_evaluator :: evaluator where
  "unchecked_evaluator =
     \<lparr>alpha = 3 / 10, beta = 3 / 10, gamma = 3 / 10, delta = 3 / 10,
      keywords_dict = keyword_table\<rparr>"

text \<open>The argument \<open>reference_codes\<close> of \<open>evaluate\<close> as a list.\<close>

definition reference_list :: "str_or_list \<Rightarrow> string list" where
  "reference_list refs = (case refs of Str s \<Rightarrow> [s] | StrList l \<Rightarrow> l)"

text \<open>The evaluation of a pair of a dataset returns a result.\<close>

definition evaluation_returns :: "evaluator \<Rightarrow> pylib \<Rightarrow> string \<times> string \<Rightarrow> bool" where
  "evaluation_returns ev lib pair =
     (case evaluate ev lib (fst pair) (Str (snd pair)) None of
        Inr sc \<Rightarrow> True | Inl e \<Rightarrow> False)"

text \<open>The metric names, in the order of the loop of \<open>evaluate_dataset\<close>.\<close>

definition metric_names :: "metric list" where
  "metric_names = [Codebleu, Bleu, Weighted_bleu, Ast_match, Control_flow]"

text \<open>
  The result of the sample source against itself, and the statistics of a list of ones.
\<close>

definition sample_result :: evaluation_result where
  "sample_result =
     \<lparr>codebleu = 1, bleu = 1, weighted_bleu = 1, ast_match = 1, control_flow = 1,
      language = ''python'',
      weights = \<lparr>alpha = 1 / 4, beta = 1 / 4, gamma = 1 / 4, delta = 1 / 4\<rparr>\<rparr>"

definition unit_stats :: metric_stats where
  "unit_stats = \<lparr>mean = 1, max_value = 1, min_value = 1, std = 0\<rparr>"

section \<open>Properties\<close>

subsection \<open>Facts about the float operations and the tolerance test\<close>

lemma float_accurate_sample: "float_accurate sample_fp"
  unfolding float_accurate_def
proof (intro conjI allI impI)
  fix x y :: real
  show "\<bar>fadd sample_fp x y - (x + y)\<bar> \<le> \<bar>x + y\<bar> / 2 ^ 53"
    by (simp add: sample_fp_def sample_fadd_table_def float_0_3_def)
  show "\<bar>fsub sample_fp x y - (x - y)\<bar> \<le> \<bar>x - y\<bar> / 2 ^ 53"
    by (simp add: sample_fp_def)
  show "\<bar>fmul sample_fp x y - x * y\<bar> \<le> \<bar>x * y\<bar> / 2 ^ 53 + 1 / 10 ^ 100"
  proof (cases "(x, y) = (float_1e_9, 5404319552844595 / 2 ^ 52)")
    case True
    have num: "\<bar>1450710983537555 / 2 ^ 80 - (4835703278458517::real) / 2 ^ 82 * (5404319552844595 / 2 ^ 52)\<bar>
                 \<le> \<bar>4835703278458517 / 2 ^ 82 * (5404319552844595 / 2 ^ 52)\<bar> / 2 ^ 53
                    + 1 / 10 ^ 100"
      by simp
    from True have x: "x = 4835703278458517 / 2 ^ 82" and y: "y = 5404319552844595 / 2 ^ 52"
      by (simp_all add: float_1e_9_def)
    from True have fm: "fmul sample_fp x y = 1450710983537555 / 2 ^ 80"
      by (simp add: sample_fp_def sample_fmul_table_def)
    show ?thesis
      unfolding fm unfolding x y by (rule num)
  next
    case False
    then have "fmul sample_fp x y = x * y"
      by (auto simp: sample_fp_def sample_fmul_table_def)
    then show ?thesis by simp
  qed
qed

lemma sample_sum_0_3: "weight_sum sample_fp float_0_3 float_0_3 float_0_3 float_0_3 = 5404319552844595 / 2 ^ 52"
  by (simp add: weight_sum_def sample_fp_def sample_fadd_table_def float_0_3_def)

lemma sample_not_close: "\<not> math_isclose sample_fp (5404319552844595 / 2 ^ 52) 1 float_1e_9 0"
  by (simp add: math_isclose_def sample_fp_def sample_fmul_table_def float_1e_9_def)

lemma sample_sum_quarter: "weight_sum sample_fp (1/4) (1/4) (1/4) (1/4) = 1"
  by (simp add: weight_sum_def sample_fp_def sample_fadd_table_def float_0_3_def)


lemma float_1e_9_bounds:
  "0 < float_1e_9"
  "(1 + 1 / 10 ^ 15) * (1 / 10 ^ 9) * (1 - 1 / 2 ^ 53) \<ge> float_1e_9 * (1 + 1 / 2 ^ 53) + 1 / 10 ^ 100"
  "(1 - 1 / 10 ^ 15) * (1 / 10 ^ 9) * (1 + 1 / 2 ^ 53) \<le> float_1e_9 * (1 - 1 / 2 ^ 53) - 1 / 10 ^ 100"
  "float_1e_9 \<le> 1"
  by (simp_all add: float_1e_9_def)

lemma isclose_operands:
  assumes acc: "float_accurate fp" and bound: "\<bar>s\<bar> \<le> 10 ^ 99"
  shows "\<bar>\<bar>fsub fp 1 s\<bar> - \<bar>1 - s\<bar>\<bar> \<le> \<bar>1 - s\<bar> / 2 ^ 53"
    and "\<bar>\<bar>fmul fp float_1e_9 1\<bar> - float_1e_9\<bar> \<le> float_1e_9 / 2 ^ 53 + 1 / 10 ^ 100"
    and "\<bar>\<bar>fmul fp float_1e_9 s\<bar> - float_1e_9 * \<bar>s\<bar>\<bar>
           \<le> float_1e_9 * \<bar>s\<bar> / 2 ^ 53 + 1 / 10 ^ 100"
proof -
  have "\<bar>1 - s\<bar> \<le> 1 + 10 ^ 99" using bound by simp
  also have "\<dots> \<le> (10 ^ 100 :: real)" by simp
  finally have "\<bar>fsub fp 1 s - (1 - s)\<bar> \<le> \<bar>1 - s\<bar> / 2 ^ 53"
    using acc by (simp add: float_accurate_def)
  then show "\<bar>\<bar>fsub fp 1 s\<bar> - \<bar>1 - s\<bar>\<bar> \<le> \<bar>1 - s\<bar> / 2 ^ 53"
    by linarith
  have "\<bar>float_1e_9 * 1\<bar> \<le> (10 ^ 100 :: real)"
    using float_1e_9_bounds(1,4) by simp
  then have "\<bar>fmul fp float_1e_9 1 - float_1e_9 * 1\<bar> \<le> \<bar>float_1e_9 * 1\<bar> / 2 ^ 53 + 1 / 10 ^ 100"
    using acc unfolding float_accurate_def by blast
  then show "\<bar>\<bar>fmul fp float_1e_9 1\<bar> - float_1e_9\<bar> \<le> float_1e_9 / 2 ^ 53 + 1 / 10 ^ 100"
    using float_1e_9_bounds(1) by simp
  have "float_1e_9 * \<bar>s\<bar> \<le> 1 * \<bar>s\<bar>"
    using float_1e_9_bounds(4) by (intro mult_right_mono) simp_all
  with bound have "\<bar>float_1e_9 * s\<bar> \<le> (10 ^ 100 :: real)"
    using float_1e_9_bounds(1) by (simp add: abs_mult)
  then have e: "\<bar>fmul fp float_1e_9 s - float_1e_9 * s\<bar> \<le> \<bar>float_1e_9 * s\<bar> / 2 ^ 53 + 1 / 10 ^ 100"
    using acc unfolding float_accurate_def by blast
  have eq: "\<bar>float_1e_9 * s\<bar> = float_1e_9 * \<bar>s\<bar>"
    using float_1e_9_bounds(1) by (simp add: abs_mult)
  have "\<bar>\<bar>fmul fp float_1e_9 s\<bar> - \<bar>float_1e_9 * s\<bar>\<bar> \<le> \<bar>fmul fp float_1e_9 s - float_1e_9 * s\<bar>"
    by (rule abs_triangle_ineq3)
  from this e have "\<bar>\<bar>fmul fp float_1e_9 s\<bar> - \<bar>float_1e_9 * s\<bar>\<bar> \<le> \<bar>float_1e_9 * s\<bar> / 2 ^ 53 + 1 / 10 ^ 100"
    by (rule order_trans)
  then show "\<bar>\<bar>fmul fp float_1e_9 s\<bar> - float_1e_9 * \<bar>s\<bar>\<bar>
           \<le> float_1e_9 * \<bar>s\<bar> / 2 ^ 53 + 1 / 10 ^ 100"
    by (simp only: eq)
qed

lemma isclose_rejects:
  assumes acc: "float_accurate fp" and bound: "\<bar>s\<bar> \<le> 10 ^ 99"
    and far: "\<bar>s - 1\<bar> > (1 + 1 / 10 ^ 15) * (1 / 10 ^ 9) * max \<bar>s\<bar> 1"
  shows "\<not> math_isclose fp s 1 float_1e_9 0"
proof -
  define u :: real where "u = 1 / 2 ^ 53"
  define h :: real where "h = 1 / 10 ^ 100"
  define K :: real where "K = (1 + 1 / 10 ^ 15) * (1 / 10 ^ 9)"
  define t where "t = float_1e_9"
  define D where "D = \<bar>1 - s\<bar>"
  define m where "m = max \<bar>s\<bar> 1"
  have u: "0 < u" "u < 1" and h: "0 \<le> h" and t: "0 < t"
    by (simp_all add: u_def h_def t_def float_1e_9_bounds)
  have num: "K * (1 - u) \<ge> t * (1 + u) + h"
    unfolding K_def u_def h_def t_def by (rule float_1e_9_bounds(2))
  have m: "1 \<le> m" "\<bar>s\<bar> \<le> m" by (simp_all add: m_def)
  have far': "K * m < D" using far by (simp add: K_def m_def D_def abs_minus_commute)
  have ops: "\<bar>\<bar>fsub fp 1 s\<bar> - D\<bar> \<le> D * u"
            "\<bar>\<bar>fmul fp t 1\<bar> - t\<bar> \<le> t * u + h"
            "\<bar>\<bar>fmul fp t s\<bar> - t * \<bar>s\<bar>\<bar> \<le> t * \<bar>s\<bar> * u + h"
    using isclose_operands [OF acc bound] by (simp_all add: u_def h_def t_def D_def)
  have "(K * m) * (1 - u) < D * (1 - u)"
    using far' u by (intro mult_strict_right_mono) simp_all
  moreover have "(t * (1 + u) + h) * m \<le> (K * (1 - u)) * m"
    using num m by (intro mult_right_mono) simp_all
  moreover have "h * 1 \<le> h * m" using h m by (intro mult_left_mono) simp_all
  ultimately have big: "t * m + t * m * u + h < D - D * u"
    by (simp add: algebra_simps)
  have a1: "t * 1 \<le> t * m" "t * \<bar>s\<bar> \<le> t * m"
    using t m by (simp_all)
  have "(t * 1) * u \<le> (t * m) * u"
    using a1(1) u by (intro mult_right_mono) simp_all
  moreover have "(t * \<bar>s\<bar>) * u \<le> (t * m) * u"
    using a1(2) u by (intro mult_right_mono) simp_all
  ultimately have small: "\<bar>fmul fp t 1\<bar> < \<bar>fsub fp 1 s\<bar>" "\<bar>fmul fp t s\<bar> < \<bar>fsub fp 1 s\<bar>"
    using ops big a1 by simp_all linarith+
  have pos: "0 < \<bar>fsub fp 1 s\<bar>"
    using small(1) by linarith
  have ne: "s \<noteq> 1" using far' m t num u h D_def
  proof -
    have "0 \<le> K * m" using m by (simp add: K_def)
    with far' show ?thesis by (auto simp: D_def)
  qed
  from ne small pos show ?thesis
    by (simp add: math_isclose_def t_def Let_def not_le)
qed


lemma isclose_accepts:
  assumes acc: "float_accurate fp" and bound: "\<bar>s\<bar> \<le> 10 ^ 99"
    and near: "\<bar>s - 1\<bar> \<le> (1 - 1 / 10 ^ 15) * (1 / 10 ^ 9) * max \<bar>s\<bar> 1"
  shows "math_isclose fp s 1 float_1e_9 0"
proof (cases "s = 1")
  case True
  then show ?thesis by (simp add: math_isclose_def)
next
  case False
  define u :: real where "u = 1 / 2 ^ 53"
  define h :: real where "h = 1 / 10 ^ 100"
  define K :: real where "K = (1 - 1 / 10 ^ 15) * (1 / 10 ^ 9)"
  define t where "t = float_1e_9"
  define D where "D = \<bar>1 - s\<bar>"
  define m where "m = max \<bar>s\<bar> 1"
  have u: "0 < u" "u < 1" and h: "0 \<le> h" and t: "0 < t"
    by (simp_all add: u_def h_def t_def float_1e_9_bounds)
  have num: "K * (1 + u) \<le> t * (1 - u) - h"
    unfolding K_def u_def h_def t_def by (rule float_1e_9_bounds(3))
  have m: "1 \<le> m" "\<bar>s\<bar> \<le> m" by (simp_all add: m_def)
  have near': "D \<le> K * m" using near by (simp add: K_def m_def D_def abs_minus_commute)
  have ops: "\<bar>\<bar>fsub fp 1 s\<bar> - D\<bar> \<le> D * u"
            "\<bar>\<bar>fmul fp t 1\<bar> - t\<bar> \<le> t * u + h"
            "\<bar>\<bar>fmul fp t s\<bar> - t * \<bar>s\<bar>\<bar> \<le> t * \<bar>s\<bar> * u + h"
    using isclose_operands [OF acc bound] by (simp_all add: u_def h_def t_def D_def)
  have "D * (1 + u) \<le> (K * m) * (1 + u)"
    using near' u by (intro mult_right_mono) simp_all
  moreover have "(K * (1 + u)) * m \<le> (t * (1 - u) - h) * m"
    using num m by (intro mult_right_mono) simp_all
  moreover have "h * 1 \<le> h * m" using h m by (intro mult_left_mono) simp_all
  ultimately have big: "D + D * u \<le> t * m - t * m * u - h"
    by (simp add: algebra_simps)
  have "\<bar>fsub fp 1 s\<bar> \<le> \<bar>fmul fp t 1\<bar> \<or> \<bar>fsub fp 1 s\<bar> \<le> \<bar>fmul fp t s\<bar>"
  proof (cases "\<bar>s\<bar> \<le> 1")
    case True
    then have "m = 1" by (simp add: m_def)
    with big ops have "\<bar>fsub fp 1 s\<bar> \<le> \<bar>fmul fp t 1\<bar>" by simp linarith
    then show ?thesis ..
  next
    case False
    then have "m = \<bar>s\<bar>" by (simp add: m_def)
    with big ops have "\<bar>fsub fp 1 s\<bar> \<le> \<bar>fmul fp t s\<bar>" by simp linarith
    then show ?thesis ..
  qed
  then show ?thesis
    by (auto simp: math_isclose_def t_def Let_def)
qed

lemma fadd_close:
  assumes "float_accurate fp" "\<bar>x + y\<bar> \<le> 2"
  shows "\<bar>fadd fp x y - (x + y)\<bar> \<le> 1 / 10 ^ 15"
proof -
  from assms(2) have "\<bar>x + y\<bar> \<le> (10 ^ 100 :: real)" by simp
  with assms(1) have "\<bar>fadd fp x y - (x + y)\<bar> \<le> \<bar>x + y\<bar> / 2 ^ 53"
    by (simp add: float_accurate_def)
  also have "\<dots> \<le> 2 / 2 ^ 53" using assms(2) by (intro divide_right_mono) simp_all
  also have "\<dots> \<le> 1 / 10 ^ 15" by simp
  finally show ?thesis .
qed

lemma weight_sum_near_0_3:
  assumes acc: "float_accurate fp"
    and w: "\<bar>a - 3 / 10\<bar> \<le> 1 / 10 ^ 10" "\<bar>b - 3 / 10\<bar> \<le> 1 / 10 ^ 10"
           "\<bar>c - 3 / 10\<bar> \<le> 1 / 10 ^ 10" "\<bar>d - 3 / 10\<bar> \<le> 1 / 10 ^ 10"
  shows "\<bar>weight_sum fp a b c d - 12 / 10\<bar> \<le> 1 / 10 ^ 9"
proof -
  have w': "\<bar>a - 3 / 10\<bar> \<le> 1 / 10000000000" "\<bar>b - 3 / 10\<bar> \<le> 1 / 10000000000"
           "\<bar>c - 3 / 10\<bar> \<le> 1 / 10000000000" "\<bar>d - 3 / 10\<bar> \<le> 1 / 10000000000"
    using w by simp_all
  have fc: "\<bar>x + y\<bar> \<le> 2 \<Longrightarrow> \<bar>fadd fp x y - (x + y)\<bar> \<le> 1 / 1000000000000000" for x y
    using fadd_close [OF acc, of x y] by simp
  define s1 where "s1 = fadd fp a b"
  define s2 where "s2 = fadd fp s1 c"
  define s3 where "s3 = fadd fp s2 d"
  have "\<bar>a + b\<bar> \<le> 2" using w' by linarith
  then have e1: "\<bar>s1 - (a + b)\<bar> \<le> 1 / 1000000000000000" unfolding s1_def by (rule fc)
  have "\<bar>s1 + c\<bar> \<le> 2" using w' e1 by linarith
  then have e2: "\<bar>s2 - (s1 + c)\<bar> \<le> 1 / 1000000000000000" unfolding s2_def by (rule fc)
  have "\<bar>s2 + d\<bar> \<le> 2" using w' e1 e2 by linarith
  then have e3: "\<bar>s3 - (s2 + d)\<bar> \<le> 1 / 1000000000000000" unfolding s3_def by (rule fc)
  have "\<bar>s3 - 12 / 10\<bar> \<le> 1 / 1000000000" using w' e1 e2 e3 by linarith
  then show ?thesis by (simp add: weight_sum_def s1_def s2_def s3_def)
qed

lemma isclose_rejects_0_3:
  assumes acc: "float_accurate fp"
    and w: "\<bar>a - 3 / 10\<bar> \<le> 1 / 10 ^ 10" "\<bar>b - 3 / 10\<bar> \<le> 1 / 10 ^ 10"
           "\<bar>c - 3 / 10\<bar> \<le> 1 / 10 ^ 10" "\<bar>d - 3 / 10\<bar> \<le> 1 / 10 ^ 10"
  shows "\<not> math_isclose fp (weight_sum fp a b c d) 1 float_1e_9 0"
proof -
  define s where "s = weight_sum fp a b c d"
  have "\<bar>s - 12 / 10\<bar> \<le> 1 / 10 ^ 9"
    unfolding s_def using acc w by (rule weight_sum_near_0_3)
  then have s: "\<bar>s - 12 / 10\<bar> \<le> 1 / 1000000000" by simp
  then have b1: "\<bar>s\<bar> \<le> 2" by linarith
  then have bound: "\<bar>s\<bar> \<le> 10 ^ 99" by simp
  have "max \<bar>s\<bar> 1 \<le> 2" using b1 by simp
  then have "(1 + 1 / 10 ^ 15) * (1 / 10 ^ 9) * max \<bar>s\<bar> 1 \<le> (1 + 1 / 10 ^ 15) * (1 / 10 ^ 9) * 2"
    by (intro mult_left_mono) simp_all
  also have "\<dots> < 1 / 10" by simp
  also have "\<dots> < \<bar>s - 1\<bar>" using s by linarith
  finally have far: "\<bar>s - 1\<bar> > (1 + 1 / 10 ^ 15) * (1 / 10 ^ 9) * max \<bar>s\<bar> 1" .
  show ?thesis
    unfolding s_def [symmetric] using acc bound far by (rule isclose_rejects)
qed

subsection \<open>Facts about the keyword table\<close>

lemma init_default: "init sample_fp (1 / 4) (1 / 4) (1 / 4) (1 / 4) = Inr default_evaluator"
  by (simp add: init_def sample_sum_quarter math_isclose_def default_evaluator_def)

lemma weight_tokens_empty: "weight_tokens {} tokens = tokens"
  by (induction tokens) (simp_all add: weight_tokens_def)

lemma keywords_get_init:
  assumes "init fp a b c d = Inr self" "lang \<notin> {''python'', ''javascript'', ''java''}"
  shows "keywords_get self lang = {}"
proof -
  from assms(1) have "keywords_dict self = keyword_table"
    by (auto simp: init_def split: if_splits)
  with assms(2) show ?thesis
    by (simp add: keywords_get_def keyword_table_def)
qed

subsection \<open>Empty inputs of the BLEU scorer\<close>

text \<open>
  C5: \<open>calculate_bleu_score\<close> returns 0.0, and raises nothing, whenever the candidate
  token sequence or the reference list is empty, whatever \<open>max_n\<close> is; in particular for
  a non-empty candidate with an empty reference list.
\<close>

theorem bleu_empty_inputs:
  "candidate = [] \<or> references = [] \<Longrightarrow>
     calculate_bleu_score candidate references max_n = Inr 0"
  by (auto simp: calculate_bleu_score_def)

theorem bleu_empty_inputs_witness:
  "calculate_bleu_score [] [[''x'']] 4 = Inr 0 \<and> calculate_bleu_score [''x''] [] 4 = Inr 0"
proof -
  have h1: "([]::token list) = [] \<or> [[''x'']] = ([]::token list list)" by simp
  have h2: "[''x''] = ([]::token list) \<or> ([]::token list list) = []" by simp
  show ?thesis
    using bleu_empty_inputs [OF h1, of 4] bleu_empty_inputs [OF h2, of 4] by simp
qed

subsection \<open>Weighted BLEU without keywords\<close>

text \<open>
  C6: when the keyword set of the language is empty, \<open>calculate_weighted_bleu_score\<close>
  returns what \<open>calculate_bleu_score\<close> (with its default \<open>max_n = 4\<close>) returns on the
  untransformed sequences; and for an evaluator built by the constructor every language
  outside the keyword table (python, javascript, java) has the empty keyword set.
\<close>

theorem weighted_bleu_without_keywords:
  "(keywords_get self lang = {} \<longrightarrow>
      calculate_weighted_bleu_score self candidate references lang
        = calculate_bleu_score candidate references 4)
   \<and> (init fp a b c d = Inr self' \<and> lang' \<notin> {''python'', ''javascript'', ''java''} \<longrightarrow>
      keywords_get self' lang' = {}
      \<and> calculate_weighted_bleu_score self' candidate references lang'
        = calculate_bleu_score candidate references 4)"
proof -
  have eq: "map (weight_tokens {}) references = references"
    by (induction references) (simp_all add: weight_tokens_empty)
  show ?thesis
    using keywords_get_init [of fp a b c d self' lang']
    by (simp add: calculate_weighted_bleu_score_def weight_tokens_empty eq)
qed

theorem weighted_bleu_without_keywords_witness:
  "keywords_get default_evaluator ''ruby'' = {}
   \<and> init sample_fp (1 / 4) (1 / 4) (1 / 4) (1 / 4) = Inr default_evaluator
   \<and> ''ruby'' \<notin> {''python'', ''javascript'', ''java''}
   \<and> calculate_weighted_bleu_score default_evaluator [''if'', ''x''] [[''if'', ''y'']] ''ruby''
       = calculate_bleu_score [''if'', ''x''] [[''if'', ''y'']] 4"
  using weighted_bleu_without_keywords
          [of default_evaluator "''ruby''" "[''if'', ''x'']" "[[''if'', ''y'']]"
              sample_fp "1 / 4" "1 / 4" "1 / 4" "1 / 4" default_evaluator "''ruby''"]
        init_default
  by simp

subsection \<open>Facts about the similarity score and the loops over references\<close>

lemma similarity_score_self: "similarity_score xs xs = 1"
proof (cases "xs = []")
  case True
  then show ?thesis by (simp add: similarity_score_def)
next
  case False
  then have "card (set xs) > 0" by (simp add: card_gt_0_iff)
  with False show ?thesis by (simp add: similarity_score_def)
qed

lemma similarity_score_nonneg: "0 \<le> similarity_score xs ys"
  by (simp add: similarity_score_def Let_def)

lemma similarity_score_le_one: "similarity_score xs ys \<le> 1"
proof -
  have "card (set xs \<inter> set ys) \<le> card (set xs \<union> set ys)"
    by (rule card_mono) auto
  then show ?thesis
    by (auto simp: similarity_score_def Let_def divide_le_eq_1)
qed

lemma similarity_score_both_empty: "similarity_score [] [] = 1"
  by (simp add: similarity_score_def)

lemma fold_max_eq_Max:
  "fold (\<lambda>x m. max m (f x)) xs (acc::real) = Max (insert acc (f ` set xs))"
proof (induction xs arbitrary: acc)
  case Nil
  then show ?case by simp
next
  case (Cons x xs)
  have "Max (insert (max acc (f x)) (f ` set xs)) = Max (insert acc (insert (f x) (f ` set xs)))"
  proof (cases "set xs = {}")
    case True
    then show ?thesis by (simp add: max.commute)
  next
    case False
    then show ?thesis
      by (simp add: Max_insert max.assoc)
  qed
  with Cons show ?case by simp
qed

lemma fold_max_one:
  assumes "acc \<le> 1" "\<forall>x\<in>set xs. f x \<le> (1::real)" "acc = 1 \<or> (\<exists>x\<in>set xs. f x = 1)"
  shows "fold (\<lambda>x m. max m (f x)) xs acc = 1"
  using assms
proof (induction xs arbitrary: acc)
  case Nil
  then show ?case by simp
next
  case (Cons x xs)
  show ?case
  proof (cases "max acc (f x) = 1")
    case True
    with Cons.IH [of "max acc (f x)"] Cons.prems show ?thesis by simp
  next
    case False
    with Cons.prems have "\<exists>y\<in>set xs. f y = 1" by (auto simp: max_def split: if_splits)
    with Cons.IH [of "max acc (f x)"] Cons.prems show ?thesis by simp
  qed
qed

lemma control_flow_score_fold:
  "calculate_control_flow_score lib c refs lang =
     fold (\<lambda>r m. max m (similarity_score (extract_control_flow lib c lang)
                                          (extract_control_flow lib r lang))) refs 0"
  by (simp add: calculate_control_flow_score_def Let_def)

lemma structural_similarity_fold:
  "calculate_structural_similarity lib c refs lang =
     fold (\<lambda>r m. max m (similarity_score (extract_code_structures lib c lang)
                                          (extract_code_structures lib r lang))) refs 0"
  by (simp add: calculate_structural_similarity_def Let_def)

lemma python_ast_loop_fold:
  "list_all (\<lambda>r. \<not> raises_other lib r) refs \<Longrightarrow>
   python_ast_loop lib cn refs acc =
     Inr (fold (\<lambda>ns m. max m (similarity_score cn ns)) (parsed_nodes lib refs) acc)"
proof (induction refs arbitrary: acc)
  case Nil
  then show ?case by (simp add: parsed_nodes_def)
next
  case (Cons r refs)
  then have IH: "\<And>acc. python_ast_loop lib cn refs acc =
     Inr (fold (\<lambda>ns m. max m (similarity_score cn ns)) (parsed_nodes lib refs) acc)"
    by simp
  from Cons.prems have nr: "\<not> raises_other lib r" by simp
  show ?case
  proof (cases "ast_parse lib r")
    case (Inl e)
    with nr have "e = SyntaxError" by (cases e) (simp_all add: raises_other_def)
    with Inl IH show ?thesis by (simp add: parsed_nodes_def)
  next
    case (Inr t)
    with IH show ?thesis by (simp add: parsed_nodes_def Let_def)
  qed
qed

lemma python_ast_loop_skip:
  "ast_parse lib r = Inl SyntaxError \<Longrightarrow>
   python_ast_loop lib cn (rs1 @ r # rs2) acc = python_ast_loop lib cn (rs1 @ rs2) acc"
proof (induction rs1 arbitrary: acc)
  case Nil
  then show ?case by simp
next
  case (Cons a rs1)
  then show ?case
    by (simp split: sum.splits py_error.splits add: Let_def)
qed

lemma python_ast_loop_raises:
  "list_ex (raises_other lib) refs \<Longrightarrow>
   \<exists>e. python_ast_loop lib cn refs acc = Inl e \<and> e \<noteq> SyntaxError"
proof (induction refs arbitrary: acc)
  case Nil
  then show ?case by simp
next
  case (Cons r refs)
  show ?case
  proof (cases "ast_parse lib r")
    case (Inl e)
    show ?thesis
    proof (cases "e = SyntaxError")
      case True
      with Inl have "\<not> raises_other lib r" by (simp add: raises_other_def)
      with Cons.prems have "list_ex (raises_other lib) refs" by simp
      from Cons.IH [OF this, of acc] Inl True show ?thesis by simp
    next
      case False
      with Inl show ?thesis by (cases e) simp_all
    qed
  next
    case (Inr t)
    then have "\<not> raises_other lib r" by (simp add: raises_other_def)
    with Cons.prems have "list_ex (raises_other lib) refs" by simp
    from Cons.IH [OF this] Inr show ?thesis by (simp add: Let_def)
  qed
qed

lemma python_ast_score_candidate_raises:
  "ast_parse lib c = Inl e \<Longrightarrow> e \<noteq> SyntaxError \<Longrightarrow> calculate_python_ast_score lib c refs = Inl e"
  by (cases e) (simp_all add: calculate_python_ast_score_def)

lemma python_ast_score_reference_raises:
  "ast_parse lib c = Inr t \<Longrightarrow> list_ex (raises_other lib) refs \<Longrightarrow>
   \<exists>e. calculate_python_ast_score lib c refs = Inl e \<and> e \<noteq> SyntaxError"
  by (simp add: calculate_python_ast_score_def python_ast_loop_raises)

lemma python_ast_loop_first_raise:
  "list_all (\<lambda>r. \<not> raises_other lib r) rs1 \<Longrightarrow> ast_parse lib r = Inl e \<Longrightarrow> e \<noteq> SyntaxError \<Longrightarrow>
   python_ast_loop lib cn (rs1 @ r # rs2) acc = Inl e"
proof (induction rs1 arbitrary: acc)
  case Nil
  then show ?case by (cases e) simp_all
next
  case (Cons a rs1)
  then have IH: "\<And>acc. python_ast_loop lib cn (rs1 @ r # rs2) acc = Inl e" by simp
  from Cons.prems have nr: "\<not> raises_other lib a" by simp
  show ?case
  proof (cases "ast_parse lib a")
    case (Inl e')
    with nr have "e' = SyntaxError" by (cases e') (simp_all add: raises_other_def)
    with Inl IH show ?thesis by simp
  next
    case (Inr t)
    with IH show ?thesis by (simp add: Let_def)
  qed
qed

lemma python_ast_score_parsed:
  assumes "ast_parse lib c = Inr t" "list_all (\<lambda>r. \<not> raises_other lib r) refs"
  shows "calculate_python_ast_score lib c refs =
           Inr (fold (\<lambda>ns m. max m (similarity_score (extract_ast_nodes t) ns))
                     (parsed_nodes lib refs) 0)"
  using assms by (simp add: calculate_python_ast_score_def python_ast_loop_fold)

lemma parsed_nodes_member:
  "r \<in> set refs \<Longrightarrow> ast_parse lib r = Inr t \<Longrightarrow>
   extract_ast_nodes t \<in> set (parsed_nodes lib refs)"
  by (induction refs) (auto simp: parsed_nodes_def)

subsection \<open>Facts about the sample sources\<close>

lemma src_deep_Cons:
  "(c # cs = src_deep) = (c = CHR ''-'' \<and> cs = replicate 99999 (CHR ''-'') @ ''1'')"
  "(src_deep = c # cs) = (CHR ''-'' = c \<and> replicate 99999 (CHR ''-'') @ ''1'' = cs)"
proof -
  have "(100000::nat) = Suc 99999" by simp
  then have eq: "src_deep = CHR ''-'' # (replicate 99999 (CHR ''-'') @ ''1'')"
    by (simp only: src_deep_def replicate_Suc append_Cons)
  show "(c # cs = src_deep) = (c = CHR ''-'' \<and> cs = replicate 99999 (CHR ''-'') @ ''1'')"
    by (simp only: eq list.inject)
  show "(src_deep = c # cs) = (CHR ''-'' = c \<and> replicate 99999 (CHR ''-'') @ ''1'' = cs)"
    by (simp only: eq list.inject)
qed

lemma src_deep_set: "set src_deep = {CHR ''-'', CHR ''1''}"
  by (auto simp: src_deep_def)

lemmas sample_defs =
  sample_lib_def sample_findall_table_def sample_parse_table_def
  src_py_def src_bad_def src_js_def src_deep_Cons
  token_pattern_def return_pattern_def function_pattern_def

lemma str_contains_subset: "str_contains s sub \<Longrightarrow> set sub \<subseteq> set s"
proof (induction s)
  case Nil
  then show ?case by simp
next
  case (Cons c cs)
  from Cons.prems have "take (length sub) (c # cs) = sub \<or> str_contains cs sub" by simp
  then show ?case
  proof
    assume "take (length sub) (c # cs) = sub"
    then have "set sub = set (take (length sub) (c # cs))" by simp
    also have "\<dots> \<subseteq> set (c # cs)" by (rule set_take_subset)
    finally show ?thesis .
  next
    assume "str_contains cs sub"
    with Cons.IH show ?thesis by auto
  qed
qed

lemma detect_language_deep: "detect_language src_deep = ''python''"
proof -
  have "\<not> str_contains src_deep sub" if "\<not> set sub \<subseteq> {CHR ''-'', CHR ''1''}" for sub
    using that str_contains_subset [of src_deep sub] by (auto simp: src_deep_set)
  then show ?thesis by (simp add: detect_language_def)
qed


subsection \<open>Facts about counters and n-gram precision\<close>

lemma Counter_keys: "set (map fst (Counter xs)) = set xs"
  by (simp add: Counter_def comp_def)

lemma Counter_distinct: "distinct (map fst (Counter xs))"
  by (simp add: Counter_def comp_def)

lemma Counter_count: "(k, c) \<in> set (Counter xs) \<Longrightarrow> c = count_list xs k \<and> k \<in> set xs"
  by (auto simp: Counter_def)

lemma Counter_positive: "(k, c) \<in> set (Counter xs) \<Longrightarrow> 0 < c"
proof -
  assume "(k, c) \<in> set (Counter xs)"
  then have "c = count_list xs k" "k \<in> set xs" by (auto dest: Counter_count)
  then show ?thesis using count_list_0_iff [of xs k] by auto
qed

lemma Counter_empty_iff: "Counter xs = [] \<longleftrightarrow> xs = []"
proof -
  have "Counter xs = [] \<longleftrightarrow> set (map fst (Counter xs)) = {}" by simp
  then show ?thesis by (simp only: Counter_keys set_empty)
qed

lemma raise_counts_other:
  "k \<notin> fst ` set items \<Longrightarrow>
   fold (\<lambda>(ngram, count) mc'. mc'(ngram := max (mc' ngram) count)) items mc k = mc k"
  by (induction items arbitrary: mc) (auto split: prod.splits)

lemma raise_counts_member:
  "distinct (map fst items) \<Longrightarrow> (k, c) \<in> set items \<Longrightarrow>
   fold (\<lambda>(ngram, count) mc'. mc'(ngram := max (mc' ngram) count)) items mc k = max (mc k) c"
proof (induction items arbitrary: mc)
  case Nil
  then show ?case by simp
next
  case (Cons a items)
  define step :: "'a \<times> 'b \<Rightarrow> ('a \<Rightarrow> 'b) \<Rightarrow> 'a \<Rightarrow> 'b"
    where "step = (\<lambda>(ngram, count) mc'. mc'(ngram := max (mc' ngram) count))"
  have step_apply: "\<And>p n m. step (p, n) m = m(p := max (m p) n)"
    by (simp add: step_def)
  obtain k' c' where a: "a = (k', c')" by (cases a)
  have goal: "fold step (a # items) mc k = max (mc k) c"
  proof (cases "(k, c) = a")
    case True
    with Cons.prems a have "k \<notin> fst ` set items" by auto
    then have "fold step items (mc(k' := max (mc k') c')) k = (mc(k' := max (mc k') c')) k"
      unfolding step_def by (rule raise_counts_other)
    with True a show ?thesis
      by (simp add: step_apply)
  next
    case False
    with Cons.prems a have "(k, c) \<in> set items" "k \<noteq> k'" "distinct (map fst items)"
      by force+
    then have "fold step items (mc(k' := max (mc k') c')) k = max ((mc(k' := max (mc k') c')) k) c"
      unfolding step_def by (intro Cons.IH)
    with \<open>k \<noteq> k'\<close> a show ?thesis
      by (simp add: step_apply)
  qed
  then show ?case by (simp only: step_def)
qed

lemma max_counts_single:
  "(k, c) \<in> set (Counter xs) \<Longrightarrow> max_counts_of [Counter xs] k = c"
  by (simp add: max_counts_of_def raise_counts_member [OF Counter_distinct])

lemma sum_list_pos_nat: "xs \<noteq> [] \<Longrightarrow> \<forall>x\<in>set xs. 0 < f x \<Longrightarrow> 0 < sum_list (map f xs :: nat list)"
  by (cases xs) auto

lemma get_ngrams_empty_iff: "get_ngrams tokens n = [] \<longleftrightarrow> int (length tokens) - int n + 1 \<le> 0"
  by (simp add: get_ngrams_def Counter_empty_iff)

lemma ngram_precision_self:
  assumes "0 < n" "n \<le> length x"
  shows "ngram_precision x [x] n = 1"
proof -
  define cnt where "cnt = get_ngrams x n"
  define total where "total = sum_list (map snd cnt)"
  define correct where
    "correct = sum_list (map (\<lambda>(ngram, count). min count (max_counts_of [cnt] ngram)) cnt)"
  have unfold: "ngram_precision x [x] n =
      (if cnt = [] then 0 else if total > 0 then real correct / real total else 0)"
    by (simp only: ngram_precision_def Let_def cnt_def total_def correct_def list.map)
  have ne: "cnt \<noteq> []" using assms by (simp add: cnt_def get_ngrams_empty_iff)
  have cnt: "cnt = Counter (map (\<lambda>i. take n (drop i x)) [0 ..< nat (int (length x) - int n + 1)])"
    by (simp add: cnt_def get_ngrams_def)
  have pos: "0 < total"
    unfolding total_def using ne
    by (intro sum_list_pos_nat) (auto simp: cnt dest: Counter_positive)
  have "map (\<lambda>(ngram, count). min count (max_counts_of [cnt] ngram)) cnt = map snd cnt"
    by (rule map_cong) (auto simp: cnt max_counts_single)
  then have eq: "correct = total"
    by (simp only: correct_def total_def)
  from ne pos eq show ?thesis by (simp add: unfold)
qed

lemma ngram_precision_nonneg: "0 \<le> ngram_precision c refs n"
  by (simp add: ngram_precision_def Let_def)

lemma upto_1_4: "[1 .. 4::int] = [1, 2, 3, 4]"
  by (simp add: upto.simps)

lemma py_min_key_nonempty: "xs \<noteq> [] \<Longrightarrow> \<exists>y. py_min_key f xs = Inr y"
  by (cases xs) (simp_all add: py_min_key_def)

lemma bleu_self_long:
  assumes "4 \<le> length x"
  shows "calculate_bleu_score x [x] 4 = Inr 1"
proof -
  have p: "map (\<lambda>n. ngram_precision x [x] (nat n)) [1 .. 4] = [1, 1, 1, 1]"
    using assms by (simp add: upto_1_4 ngram_precision_self)
  have ne: "x \<noteq> []" using assms by auto
  show ?thesis
    unfolding calculate_bleu_score_def Let_def p
    using ne by (simp add: py_min_key_def)
qed

lemma bleu_self_short:
  assumes "length x < 4"
  shows "calculate_bleu_score x [x] 4 = Inr 0"
proof (cases "x = []")
  case True
  then show ?thesis by (simp add: calculate_bleu_score_def)
next
  case False
  from assms have "get_ngrams x 4 = []" by (simp add: get_ngrams_empty_iff)
  then have z: "ngram_precision x [x] 4 = 0" by (simp add: ngram_precision_def)
  define ps where "ps = map (\<lambda>n. ngram_precision x [x] (nat n)) [1 .. 4]"
  have "list_ex (\<lambda>p. p = 0) ps"
    by (simp add: ps_def upto_1_4 z)
  with False show ?thesis
    unfolding calculate_bleu_score_def Let_def ps_def [symmetric]
    by (simp add: py_min_key_def)
qed

lemma bleu_returns: "\<exists>v. calculate_bleu_score c refs 4 = Inr v"
proof (cases "c = [] \<or> refs = []")
  case True
  then show ?thesis by (auto simp: calculate_bleu_score_def)
next
  case False
  then obtain y where y: "py_min_key (\<lambda>ref. \<bar>int (length ref) - int (length c)\<bar>) refs = Inr y"
    using py_min_key_nonempty by blast
  have nn: "\<not> list_ex (\<lambda>p. p < 0) (map (\<lambda>n. ngram_precision c refs (nat n)) [1 .. 4])"
    by (simp add: upto_1_4 ngram_precision_nonneg not_less)
  have ne: "map (\<lambda>n. ngram_precision c refs (nat n)) [1 .. 4] \<noteq> []"
    by (simp add: upto_1_4)
  show ?thesis
    unfolding calculate_bleu_score_def Let_def
    using False y nn ne by simp
qed


subsection \<open>Values of the sample library\<close>

lemma sample_tokens_py:
  "tokenize_code sample_lib src_py ''python'' = [''def'', ''f'', ''('', '')'', '':'', ''return'', ''1'']"
  by (simp add: tokenize_code_def sample_defs)

lemma sample_parse_py:
  "ast_parse sample_lib src_py =
     Inr (Node ''Module'' [Node ''FunctionDef'' [Node ''arguments'' [],
                                                 Node ''Return'' [Node ''Constant'' []]]])"
  by (simp add: sample_defs)

lemma sample_parse_bad: "ast_parse sample_lib src_bad = Inl SyntaxError"
  by (simp add: sample_defs)

lemma sample_parse_js: "ast_parse sample_lib src_js = Inl SyntaxError"
  by (simp add: sample_defs)

lemma sample_parse_deep: "ast_parse sample_lib src_deep = Inl (OtherException ''MemoryError'')"
  by (simp add: sample_lib_def sample_parse_table_def)

lemma sample_tokens_deep:
  "tokenize_code sample_lib src_deep ''python'' = replicate 100000 ''-'' @ [''1'']"
  by (simp add: tokenize_code_def sample_defs)

lemma sample_nodes_py:
  "parsed_nodes sample_lib [src_bad, src_py]
     = [[''Module'', ''FunctionDef'', ''arguments'', ''Return'', ''Constant'']]"
  by (simp add: parsed_nodes_def sample_parse_py sample_parse_bad extract_ast_nodes_def ast_walk_def)

subsection \<open>BLEU of a sequence against itself\<close>

text \<open>
  C2, as amended: for every token sequence \<open>x\<close> of at least four tokens,
  \<open>calculate_bleu_score(x, [x])\<close> with \<open>max_n = 4\<close> is 1.0, with precision 1 at each
  of the four n-gram orders (the brevity penalty is \<open>exp(1 - len/len) = 1\<close>); for every
  token sequence of fewer than four tokens, the empty one included, it is 0.0: such a
  sequence has no 4-gram, and the precision of an order without n-grams is 0.0.
\<close>

theorem bleu_self_match:
  "(4 \<le> length x \<longrightarrow>
      calculate_bleu_score x [x] 4 = Inr 1
      \<and> list_all (\<lambda>n. ngram_precision x [x] n = 1) [1, 2, 3, 4])
   \<and> (length x < 4 \<longrightarrow> calculate_bleu_score x [x] 4 = Inr 0)"
  by (simp add: bleu_self_long bleu_self_short ngram_precision_self)

theorem bleu_self_match_witness:
  "4 \<le> length [''def'', ''f'', ''('', '')'', '':'', ''return'', ''1'']
   \<and> calculate_bleu_score [''def'', ''f'', ''('', '')'', '':'', ''return'', ''1'']
                        [[''def'', ''f'', ''('', '')'', '':'', ''return'', ''1'']] 4 = Inr 1
   \<and> length [''def'', ''(''] < 4
   \<and> calculate_bleu_score [''def'', ''(''] [[''def'', ''('']] 4 = Inr 0"
proof -
  have h1: "4 \<le> length [''def'', ''f'', ''('', '')'', '':'', ''return'', ''1'']" by simp
  have h2: "length [''def'', ''(''] < 4" by simp
  from bleu_self_match [of "[''def'', ''f'', ''('', '')'', '':'', ''return'', ''1'']"]
       bleu_self_match [of "[''def'', ''('']"] h1 h2
  show ?thesis by simp
qed

theorem bleu_self_match_short_counterexample:
  "calculate_bleu_score [''x'', ''='', ''1''] [[''x'', ''='', ''1'']] 4 = Inr 0
   \<and> calculate_bleu_score [''x'', ''='', ''1''] [[''x'', ''='', ''1'']] 4 \<noteq> Inr 1"
  by (simp add: calculate_bleu_score_def py_min_key_def upto_1_4 ngram_precision_def
        get_ngrams_def Counter_def Let_def)

subsection \<open>Fallback structural score of a language without recipes\<close>

text \<open>
  C10: for every language tag outside python, javascript and java the structure extractor
  returns the empty list for every source, and the structural score (which is computed
  in fallback mode for such a tag) is 1.0 for any candidate against any non-empty
  reference list, whatever the sources contain.
\<close>

theorem fallback_unknown_language:
  "lang \<notin> {''python'', ''javascript'', ''java''} \<Longrightarrow>
     extract_code_structures lib code lang = []
     \<and> (refs \<noteq> [] \<longrightarrow>
          calculate_structural_similarity lib candidate refs lang = 1
          \<and> calculate_ast_matching_score lib candidate refs lang = Inr 1)"
proof -
  assume l: "lang \<notin> {''python'', ''javascript'', ''java''}"
  then have e: "\<And>s. extract_code_structures lib s lang = []"
    by (simp add: extract_code_structures_def)
  have "calculate_structural_similarity lib candidate refs lang = 1" if "refs \<noteq> []"
  proof -
    from that obtain r where "r \<in> set refs" by (cases refs) auto
    then show ?thesis
      unfolding structural_similarity_fold
      by (intro fold_max_one) (auto simp: e similarity_score_both_empty)
  qed
  with l e show ?thesis by (simp add: calculate_ast_matching_score_def)
qed

theorem fallback_unknown_language_witness:
  "extract_code_structures sample_lib src_js ''ruby'' = []
   \<and> calculate_structural_similarity sample_lib src_js [src_py, src_bad] ''ruby'' = 1
   \<and> calculate_ast_matching_score sample_lib src_js [src_py, src_bad] ''ruby'' = Inr 1"
proof -
  have h: "''ruby'' \<notin> {''python'', ''javascript'', ''java''}" by simp
  from fallback_unknown_language [OF h, of sample_lib src_js "[src_py, src_bad]" src_js]
  show ?thesis by simp
qed

subsection \<open>Parse failures in Python-parser mode\<close>

text \<open>
  C7, as amended: in \<open>_calculate_python_ast_score\<close>, a candidate whose parsing raises
  \<open>SyntaxError\<close> gives the score 0.0 and no exception; a reference whose parsing raises
  \<open>SyntaxError\<close> is skipped, the result being that of the list without it; and when the
  candidate parses and no reference makes the parser raise anything else, the result is
  the greatest similarity over the references that parse, and 0.0 when none does. A
  parse failure with any other exception is not caught: raised on the candidate, it is
  the outcome of the scorer; raised on a reference, after a candidate that parsed and
  references that raised at most \<open>SyntaxError\<close>, it is the outcome as well, whatever
  references follow.
\<close>

theorem python_parse_failures:
  "(ast_parse lib candidate = Inl SyntaxError \<longrightarrow>
      calculate_python_ast_score lib candidate refs = Inr 0)
   \<and> (ast_parse lib r = Inl SyntaxError \<longrightarrow>
      calculate_python_ast_score lib candidate (rs1 @ r # rs2)
        = calculate_python_ast_score lib candidate (rs1 @ rs2))
   \<and> (ast_parse lib candidate = Inr t \<and> list_all (\<lambda>r. \<not> raises_other lib r) refs \<longrightarrow>
      calculate_python_ast_score lib candidate refs
        = Inr (Max (insert 0 (similarity_score (extract_ast_nodes t) ` set (parsed_nodes lib refs)))))
   \<and> (ast_parse lib candidate = Inl e \<and> e \<noteq> SyntaxError \<longrightarrow>
      calculate_python_ast_score lib candidate refs = Inl e)
   \<and> (ast_parse lib candidate = Inr t \<and> list_all (\<lambda>r. \<not> raises_other lib r) rs1'
        \<and> ast_parse lib r' = Inl e' \<and> e' \<noteq> SyntaxError \<longrightarrow>
      calculate_python_ast_score lib candidate (rs1' @ r' # rs2') = Inl e')"
proof -
  have p1: "calculate_python_ast_score lib candidate refs = Inr 0"
    if "ast_parse lib candidate = Inl SyntaxError"
    using that by (simp add: calculate_python_ast_score_def)
  have p2: "calculate_python_ast_score lib candidate (rs1 @ r # rs2)
        = calculate_python_ast_score lib candidate (rs1 @ rs2)"
    if "ast_parse lib r = Inl SyntaxError"
    using that
    by (simp add: calculate_python_ast_score_def python_ast_loop_skip
             split: sum.splits py_error.splits)
  have p3: "calculate_python_ast_score lib candidate refs
        = Inr (Max (insert 0 (similarity_score (extract_ast_nodes t) ` set (parsed_nodes lib refs))))"
    if "ast_parse lib candidate = Inr t \<and> list_all (\<lambda>r. \<not> raises_other lib r) refs"
    using that by (simp add: python_ast_score_parsed fold_max_eq_Max)
  have p4: "calculate_python_ast_score lib candidate refs = Inl e"
    if "ast_parse lib candidate = Inl e \<and> e \<noteq> SyntaxError"
    using that by (simp add: python_ast_score_candidate_raises)
  have p5: "calculate_python_ast_score lib candidate (rs1' @ r' # rs2') = Inl e'"
    if "ast_parse lib candidate = Inr t \<and> list_all (\<lambda>r. \<not> raises_other lib r) rs1'
        \<and> ast_parse lib r' = Inl e' \<and> e' \<noteq> SyntaxError"
    using that by (simp add: calculate_python_ast_score_def python_ast_loop_first_raise)
  from p1 p2 p3 p4 p5 show ?thesis by blast
qed

theorem python_parse_failures_uncaught_counterexample:
  "ast_parse sample_lib src_deep = Inl (OtherException ''MemoryError'')
   \<and> calculate_python_ast_score sample_lib src_deep [src_py] = Inl (OtherException ''MemoryError'')
   \<and> calculate_python_ast_score sample_lib src_py [src_py] = Inr 1
   \<and> calculate_python_ast_score sample_lib src_py [src_deep, src_py]
       = Inl (OtherException ''MemoryError'')"
  by (simp add: calculate_python_ast_score_def sample_parse_deep sample_parse_py
        similarity_score_self)

theorem python_parse_failures_witness:
  "ast_parse sample_lib src_bad = Inl SyntaxError
   \<and> calculate_python_ast_score sample_lib src_bad [src_py] = Inr 0
   \<and> calculate_python_ast_score sample_lib src_py ([] @ src_bad # [src_py])
       = calculate_python_ast_score sample_lib src_py ([] @ [src_py])
   \<and> list_all (\<lambda>r. \<not> raises_other sample_lib r) [src_bad, src_py]
   \<and> calculate_python_ast_score sample_lib src_py [src_bad, src_py] = Inr 1
   \<and> ast_parse sample_lib src_deep = Inl (OtherException ''MemoryError'')
   \<and> OtherException ''MemoryError'' \<noteq> SyntaxError
   \<and> calculate_python_ast_score sample_lib src_deep [src_bad, src_py]
       = Inl (OtherException ''MemoryError'')
   \<and> list_all (\<lambda>r. \<not> raises_other sample_lib r) [src_bad]
   \<and> calculate_python_ast_score sample_lib src_py ([src_bad] @ src_deep # [src_py])
       = Inl (OtherException ''MemoryError'')"
proof -
  have h: "list_all (\<lambda>r. \<not> raises_other sample_lib r) [src_bad, src_py]"
          "list_all (\<lambda>r. \<not> raises_other sample_lib r) [src_bad]"
    by (simp_all add: raises_other_def sample_parse_py sample_parse_bad)
  have m: "Max (insert 0 (similarity_score
              [''Module'', ''FunctionDef'', ''arguments'', ''Return'', ''Constant'']
              ` set [[''Module'', ''FunctionDef'', ''arguments'', ''Return'', ''Constant'']])) = 1"
    by (simp add: similarity_score_self)
  from python_parse_failures
         [where lib = sample_lib and candidate = src_bad and refs = "[src_py]"
            and r = src_bad and ?rs1.0 = "[]" and ?rs2.0 = "[src_py]"
            and t = "Node ''Module'' []" and e = SyntaxError
            and r' = src_bad and ?rs1' = "[]" and ?rs2' = "[]" and e' = SyntaxError]
       python_parse_failures
         [where lib = sample_lib and candidate = src_py and refs = "[src_bad, src_py]"
            and r = src_bad and ?rs1.0 = "[]" and ?rs2.0 = "[src_py]"
            and t = "Node ''Module'' [Node ''FunctionDef'' [Node ''arguments'' [],
                                                 Node ''Return'' [Node ''Constant'' []]]]"
            and e = SyntaxError
            and r' = src_deep and ?rs1' = "[src_bad]" and ?rs2' = "[src_py]"
            and e' = "OtherException ''MemoryError''"]
       python_parse_failures
         [where lib = sample_lib and candidate = src_deep and refs = "[src_bad, src_py]"
            and r = src_bad and ?rs1.0 = "[]" and ?rs2.0 = "[src_py]"
            and t = "Node ''Module'' []" and e = "OtherException ''MemoryError''"
            and r' = src_bad and ?rs1' = "[]" and ?rs2' = "[]" and e' = SyntaxError]
       h m
  show ?thesis
    by (auto simp: sample_parse_py sample_parse_bad sample_parse_deep sample_nodes_py
          extract_ast_nodes_def ast_walk_def)
qed

subsection \<open>Facts about the composite scorer\<close>

lemma weighted_bleu_returns: "\<exists>v. calculate_weighted_bleu_score self c refs lang = Inr v"
  by (simp add: calculate_weighted_bleu_score_def Let_def bleu_returns)

lemma evaluate_fallback_returns:
  assumes "lang \<noteq> ''python''"
  shows "\<exists>r. evaluate self lib c refs (Some lang) = Inr r
             \<and> weights r = \<lparr>alpha = alpha self, beta = beta self,
                              gamma = gamma self, delta = delta self\<rparr>"
proof -
  define rc where "rc = (case refs of Str s \<Rightarrow> [s] | StrList l \<Rightarrow> l)"
  obtain b where b: "calculate_bleu_score (tokenize_code lib c lang)
                        (map (\<lambda>ref. tokenize_code lib ref lang) rc) 4 = Inr b"
    using bleu_returns by blast
  obtain w where w: "calculate_weighted_bleu_score self (tokenize_code lib c lang)
                        (map (\<lambda>ref. tokenize_code lib ref lang) rc) lang = Inr w"
    using weighted_bleu_returns by blast
  from assms b w show ?thesis
    by (simp add: evaluate_def Let_def rc_def [symmetric] calculate_ast_matching_score_def)
qed

lemma ast_matching_returns:
  assumes "\<not> raises_other lib c" "list_all (\<lambda>r. \<not> raises_other lib r) refs"
  shows "\<exists>v. calculate_ast_matching_score lib c refs lang = Inr v"
proof (cases "lang = ''python''")
  case False
  then show ?thesis by (simp add: calculate_ast_matching_score_def)
next
  case True
  show ?thesis
  proof (cases "ast_parse lib c")
    case (Inl e)
    with assms(1) have "e = SyntaxError" by (cases e) (simp_all add: raises_other_def)
    with Inl True show ?thesis
      by (simp add: calculate_ast_matching_score_def calculate_python_ast_score_def)
  next
    case (Inr t)
    with True assms(2) show ?thesis
      by (simp add: calculate_ast_matching_score_def python_ast_score_parsed)
  qed
qed

lemma evaluate_returns:
  assumes "\<not> raises_other lib c" "list_all (\<lambda>r. \<not> raises_other lib r) (reference_list refs)"
  shows "\<exists>r. evaluate self lib c refs lang = Inr r"
proof -
  define l where "l = (case lang of None \<Rightarrow> detect_language c | Some l \<Rightarrow> l)"
  define rc where "rc = (case refs of Str s \<Rightarrow> [s] | StrList l \<Rightarrow> l)"
  obtain b where b: "calculate_bleu_score (tokenize_code lib c l)
                        (map (\<lambda>ref. tokenize_code lib ref l) rc) 4 = Inr b"
    using bleu_returns by blast
  obtain w where w: "calculate_weighted_bleu_score self (tokenize_code lib c l)
                        (map (\<lambda>ref. tokenize_code lib ref l) rc) l = Inr w"
    using weighted_bleu_returns by blast
  obtain a where a: "calculate_ast_matching_score lib c rc l = Inr a"
    using ast_matching_returns [OF assms(1), of rc l] assms(2)
    by (auto simp: reference_list_def rc_def)
  from b w a show ?thesis
    by (simp add: evaluate_def Let_def rc_def [symmetric] l_def [symmetric])
qed

lemma default_weights:
  "alpha default_evaluator = 1 / 4" "beta default_evaluator = 1 / 4"
  "gamma default_evaluator = 1 / 4" "delta default_evaluator = 1 / 4"
  by (simp_all add: default_evaluator_def)

lemma sample_evaluate_py:
  "evaluate default_evaluator sample_lib src_py (Str src_py) None =
     Inr \<lparr>codebleu = 1, bleu = 1, weighted_bleu = 1, ast_match = 1, control_flow = 1,
          language = ''python'',
          weights = \<lparr>alpha = 1 / 4, beta = 1 / 4, gamma = 1 / 4, delta = 1 / 4\<rparr>\<rparr>"
proof -
  have l: "detect_language src_py = ''python''"
    by (simp add: detect_language_def src_py_def)
  have b: "calculate_bleu_score [''def'', ''f'', ''('', '')'', '':'', ''return'', ''1'']
             [[''def'', ''f'', ''('', '')'', '':'', ''return'', ''1'']] 4 = Inr 1"
    by (rule bleu_self_long) simp
  have w: "calculate_weighted_bleu_score default_evaluator
             [''def'', ''f'', ''('', '')'', '':'', ''return'', ''1'']
             [[''def'', ''f'', ''('', '')'', '':'', ''return'', ''1'']] ''python'' = Inr 1"
    unfolding calculate_weighted_bleu_score_def Let_def
    by (simp add: bleu_self_long weight_tokens_def)
  have a: "calculate_ast_matching_score sample_lib src_py [src_py] ''python'' = Inr 1"
    by (simp add: calculate_ast_matching_score_def calculate_python_ast_score_def
          sample_parse_py similarity_score_self)
  have c: "calculate_control_flow_score sample_lib src_py [src_py] ''python'' = 1"
    by (simp add: control_flow_score_fold similarity_score_self)
  show ?thesis
    by (simp add: evaluate_def l sample_tokens_py b w a c default_weights)
qed

subsection \<open>The composite score\<close>

text \<open>
  C1: for any candidate, references and language, the composite score of the result of
  \<open>evaluate\<close> is \<open>alpha * bleu + beta * weighted_bleu + gamma * ast_match +
  delta * control_flow\<close>, with the weights of the instance (which the result carries) and
  the four sub-scores of the same result. Floats are real numbers here, so the equality
  is exact. And \<open>evaluate\<close> does return a result, unless the parser raises an exception
  other than \<open>SyntaxError\<close> on the candidate or on a reference.
\<close>

theorem evaluate_composite:
  "(evaluate self lib candidate refs lang = Inr r \<longrightarrow>
      codebleu r = alpha self * bleu r + beta self * weighted_bleu r
                   + gamma self * ast_match r + delta self * control_flow r
      \<and> weights r = \<lparr>alpha = alpha self, beta = beta self,
                       gamma = gamma self, delta = delta self\<rparr>)
   \<and> (\<not> raises_other lib candidate
        \<and> list_all (\<lambda>ref. \<not> raises_other lib ref) (reference_list refs) \<longrightarrow>
      (\<exists>r'. evaluate self lib candidate refs lang = Inr r'))"
  using evaluate_returns [of lib candidate refs self lang]
  by (auto simp: evaluate_def Let_def split: sum.splits)

theorem evaluate_composite_witness:
  "evaluate default_evaluator sample_lib src_py (Str src_py) None = Inr sample_result
   \<and> codebleu sample_result = 1 / 4 * bleu sample_result + 1 / 4 * weighted_bleu sample_result
                               + 1 / 4 * ast_match sample_result
                               + 1 / 4 * control_flow sample_result
   \<and> \<not> raises_other sample_lib src_py
   \<and> list_all (\<lambda>ref. \<not> raises_other sample_lib ref) (reference_list (Str src_py))"
proof -
  have h: "\<not> raises_other sample_lib src_py"
    by (simp add: raises_other_def sample_parse_py)
  from evaluate_composite
         [where self = default_evaluator and lib = sample_lib and candidate = src_py
            and refs = "Str src_py" and lang = None and r = sample_result]
       sample_evaluate_py h
  show ?thesis
    by (simp add: sample_result_def default_weights reference_list_def)
qed

subsection \<open>The check of the weights\<close>

text \<open>
  C3: the constructor raises \<open>ValueError\<close> when the float sum of the four weights is not
  within the relative tolerance 1e-9 of 1.0. With float operations that are accurate to
  rounding: it raises whenever that sum differs from 1.0 by more than \<open>1 + 10^-15\<close> times
  1e-9 times the greater of the sum's magnitude and 1; it raises for four weights 0.3
  (any four floats within \<open>10^-10\<close> of 0.3). When it returns, the test of closeness has
  succeeded and the instance holds the weights as given, uncorrected; it does return
  when the sum differs from 1.0 by at most \<open>1 - 10^-15\<close> times that bound. And
  \<open>evaluate\<close> does not repeat the check: on an instance with any weights whatsoever, and
  a language other than python, it returns a result that carries these weights.
\<close>

theorem init_checks_weights:
  "(float_accurate fp \<and> \<bar>weight_sum fp a b c d\<bar> \<le> 10 ^ 99
      \<and> \<bar>weight_sum fp a b c d - 1\<bar>
          > (1 + 1 / 10 ^ 15) * (1 / 10 ^ 9) * max \<bar>weight_sum fp a b c d\<bar> 1 \<longrightarrow>
      init fp a b c d = Inl (ValueError ''Weights must sum to 1.0''))
   \<and> (float_accurate fp
      \<and> \<bar>a - 3 / 10\<bar> \<le> 1 / 10 ^ 10 \<and> \<bar>b - 3 / 10\<bar> \<le> 1 / 10 ^ 10
      \<and> \<bar>c - 3 / 10\<bar> \<le> 1 / 10 ^ 10 \<and> \<bar>d - 3 / 10\<bar> \<le> 1 / 10 ^ 10 \<longrightarrow>
      init fp a b c d = Inl (ValueError ''Weights must sum to 1.0''))
   \<and> (\<not> math_isclose fp (weight_sum fp a b c d) 1 float_1e_9 0 \<longrightarrow>
      init fp a b c d = Inl (ValueError ''Weights must sum to 1.0''))
   \<and> (init fp a b c d = Inr self \<longrightarrow>
      math_isclose fp (weight_sum fp a b c d) 1 float_1e_9 0
      \<and> alpha self = a \<and> beta self = b \<and> gamma self = c \<and> delta self = d)
   \<and> (float_accurate fp \<and> \<bar>weight_sum fp a b c d\<bar> \<le> 10 ^ 99
      \<and> \<bar>weight_sum fp a b c d - 1\<bar>
          \<le> (1 - 1 / 10 ^ 15) * (1 / 10 ^ 9) * max \<bar>weight_sum fp a b c d\<bar> 1 \<longrightarrow>
      init fp a b c d =
        Inr \<lparr>alpha = a, beta = b, gamma = c, delta = d, keywords_dict = keyword_table\<rparr>)
   \<and> (lang \<noteq> ''python'' \<longrightarrow>
      (\<exists>r. evaluate self' lib candidate refs (Some lang) = Inr r
           \<and> weights r = \<lparr>alpha = alpha self', beta = beta self',
                            gamma = gamma self', delta = delta self'\<rparr>))"
proof -
  have p1: "init fp a b c d = Inl (ValueError ''Weights must sum to 1.0'')"
    if "float_accurate fp \<and> \<bar>weight_sum fp a b c d\<bar> \<le> 10 ^ 99
      \<and> \<bar>weight_sum fp a b c d - 1\<bar>
          > (1 + 1 / 10 ^ 15) * (1 / 10 ^ 9) * max \<bar>weight_sum fp a b c d\<bar> 1"
  proof -
    from that have "\<not> math_isclose fp (weight_sum fp a b c d) 1 float_1e_9 0"
      by (intro isclose_rejects) simp_all
    then show ?thesis by (simp add: init_def)
  qed
  have p2: "init fp a b c d = Inl (ValueError ''Weights must sum to 1.0'')"
    if "float_accurate fp
      \<and> \<bar>a - 3 / 10\<bar> \<le> 1 / 10 ^ 10 \<and> \<bar>b - 3 / 10\<bar> \<le> 1 / 10 ^ 10
      \<and> \<bar>c - 3 / 10\<bar> \<le> 1 / 10 ^ 10 \<and> \<bar>d - 3 / 10\<bar> \<le> 1 / 10 ^ 10"
  proof -
    from that have "\<not> math_isclose fp (weight_sum fp a b c d) 1 float_1e_9 0"
      by (intro isclose_rejects_0_3) simp_all
    then show ?thesis by (simp add: init_def)
  qed
  have p3: "init fp a b c d = Inl (ValueError ''Weights must sum to 1.0'')"
    if "\<not> math_isclose fp (weight_sum fp a b c d) 1 float_1e_9 0"
    using that by (simp add: init_def)
  have p4: "math_isclose fp (weight_sum fp a b c d) 1 float_1e_9 0
      \<and> alpha self = a \<and> beta self = b \<and> gamma self = c \<and> delta self = d"
    if "init fp a b c d = Inr self"
    using that by (auto simp: init_def split: if_splits)
  have p5: "init fp a b c d =
        Inr \<lparr>alpha = a, beta = b, gamma = c, delta = d, keywords_dict = keyword_table\<rparr>"
    if "float_accurate fp \<and> \<bar>weight_sum fp a b c d\<bar> \<le> 10 ^ 99
      \<and> \<bar>weight_sum fp a b c d - 1\<bar>
          \<le> (1 - 1 / 10 ^ 15) * (1 / 10 ^ 9) * max \<bar>weight_sum fp a b c d\<bar> 1"
  proof -
    from that have "math_isclose fp (weight_sum fp a b c d) 1 float_1e_9 0"
      by (intro isclose_accepts) simp_all
    then show ?thesis by (simp add: init_def)
  qed
  have p6: "\<exists>r. evaluate self' lib candidate refs (Some lang) = Inr r
           \<and> weights r = \<lparr>alpha = alpha self', beta = beta self',
                            gamma = gamma self', delta = delta self'\<rparr>"
    if "lang \<noteq> ''python''"
    using that by (rule evaluate_fallback_returns)
  from p1 p2 p3 p4 p5 p6 show ?thesis by blast
qed

theorem init_checks_weights_witness:
  "float_accurate sample_fp
   \<and> weight_sum sample_fp float_0_3 float_0_3 float_0_3 float_0_3 = 5404319552844595 / 2 ^ 52
   \<and> \<bar>float_0_3 - 3 / 10\<bar> \<le> 1 / 10 ^ 10
   \<and> \<not> math_isclose sample_fp (weight_sum sample_fp float_0_3 float_0_3 float_0_3 float_0_3)
          1 float_1e_9 0
   \<and> init sample_fp float_0_3 float_0_3 float_0_3 float_0_3
       = Inl (ValueError ''Weights must sum to 1.0'')
   \<and> weight_sum sample_fp (1 / 4) (1 / 4) (1 / 4) (1 / 4) = 1
   \<and> init sample_fp (1 / 4) (1 / 4) (1 / 4) (1 / 4) = Inr default_evaluator
   \<and> alpha default_evaluator = 1 / 4
   \<and> ''javascript'' \<noteq> ''python''
   \<and> (\<exists>r. evaluate unchecked_evaluator sample_lib src_js (Str src_js) (Some ''javascript'') = Inr r
          \<and> weights r = \<lparr>alpha = 3 / 10, beta = 3 / 10, gamma = 3 / 10, delta = 3 / 10\<rparr>)"
proof -
  have w: "\<bar>float_0_3 - 3 / 10\<bar> \<le> 1 / 10 ^ 10"
    by (simp add: float_0_3_def)
  have s: "weight_sum sample_fp float_0_3 float_0_3 float_0_3 float_0_3
             = 5404319552844595 / 2 ^ 52"
    by (rule sample_sum_0_3)
  have n: "\<not> math_isclose sample_fp (weight_sum sample_fp float_0_3 float_0_3 float_0_3 float_0_3)
          1 float_1e_9 0"
    unfolding s by (rule sample_not_close)
  have far: "\<bar>weight_sum sample_fp float_0_3 float_0_3 float_0_3 float_0_3\<bar> \<le> 10 ^ 99
      \<and> \<bar>weight_sum sample_fp float_0_3 float_0_3 float_0_3 float_0_3 - 1\<bar>
          > (1 + 1 / 10 ^ 15) * (1 / 10 ^ 9)
            * max \<bar>weight_sum sample_fp float_0_3 float_0_3 float_0_3 float_0_3\<bar> 1"
    unfolding s by simp
  have near: "\<bar>weight_sum sample_fp (1 / 4) (1 / 4) (1 / 4) (1 / 4)\<bar> \<le> 10 ^ 99
      \<and> \<bar>weight_sum sample_fp (1 / 4) (1 / 4) (1 / 4) (1 / 4) - 1\<bar>
          \<le> (1 - 1 / 10 ^ 15) * (1 / 10 ^ 9)
            * max \<bar>weight_sum sample_fp (1 / 4) (1 / 4) (1 / 4) (1 / 4)\<bar> 1"
    unfolding sample_sum_quarter by simp
  from init_checks_weights
         [where fp = sample_fp and a = float_0_3 and b = float_0_3 and c = float_0_3
            and d = float_0_3 and self = default_evaluator and lang = "''javascript''"
            and self' = unchecked_evaluator and lib = sample_lib
            and candidate = src_js and refs = "Str src_js"]
       init_checks_weights
         [where fp = sample_fp and a = "1 / 4" and b = "1 / 4" and c = "1 / 4" and d = "1 / 4"
            and self = default_evaluator and lang = "''javascript''"
            and self' = unchecked_evaluator and lib = sample_lib
            and candidate = src_js and refs = "Str src_js"]
       float_accurate_sample w s n far near init_default sample_sum_quarter
  show ?thesis
    by (simp add: unchecked_evaluator_def default_evaluator_def)
qed

subsection \<open>Identical candidate and reference\<close>

text \<open>
  C4, as amended: when the candidate is one of the references, the control-flow score is
  1.0, and so is the structural score in fallback mode (every language but python); in
  Python-parser mode it is 1.0 when the candidate parses and no reference makes the
  parser raise an exception other than \<open>SyntaxError\<close>. In Python-parser mode, for any
  reference list: the structural score is 0.0 when parsing the candidate raises
  \<open>SyntaxError\<close>; the scorer raises when parsing the candidate raises any other
  exception, and when the candidate parses and parsing some reference raises an
  exception other than \<open>SyntaxError\<close>. When the signature of the candidate and that of
  some reference are both empty, the control-flow score and the fallback structural
  score are 1.0.
\<close>

theorem identical_reference_scores:
  "(candidate \<in> set refs \<longrightarrow>
      calculate_control_flow_score lib candidate refs lang = 1)
   \<and> (candidate \<in> set refs \<and> lang \<noteq> ''python'' \<longrightarrow>
      calculate_ast_matching_score lib candidate refs lang = Inr 1)
   \<and> (candidate \<in> set refs \<and> ast_parse lib candidate = Inr t
        \<and> list_all (\<lambda>r. \<not> raises_other lib r) refs \<longrightarrow>
      calculate_ast_matching_score lib candidate refs ''python'' = Inr 1)
   \<and> (ast_parse lib candidate = Inl SyntaxError \<longrightarrow>
      calculate_ast_matching_score lib candidate refs ''python'' = Inr 0)
   \<and> (ast_parse lib candidate = Inl e \<and> e \<noteq> SyntaxError \<longrightarrow>
      calculate_ast_matching_score lib candidate refs ''python'' = Inl e)
   \<and> (ast_parse lib candidate = Inr t \<and> list_ex (raises_other lib) refs \<longrightarrow>
      (\<exists>e'. calculate_ast_matching_score lib candidate refs ''python'' = Inl e'
            \<and> e' \<noteq> SyntaxError))
   \<and> (r \<in> set refs \<and> extract_control_flow lib candidate lang = []
        \<and> extract_control_flow lib r lang = [] \<longrightarrow>
      calculate_control_flow_score lib candidate refs lang = 1)
   \<and> (r \<in> set refs \<and> lang \<noteq> ''python'' \<and> extract_code_structures lib candidate lang = []
        \<and> extract_code_structures lib r lang = [] \<longrightarrow>
      calculate_ast_matching_score lib candidate refs lang = Inr 1)"
proof -
  have p1: "calculate_control_flow_score lib candidate refs lang = 1"
    if "candidate \<in> set refs"
  proof -
    from that
    have "\<exists>x\<in>set refs. similarity_score (extract_control_flow lib candidate lang)
                 (extract_control_flow lib x lang) = 1"
      by (auto simp: similarity_score_self intro!: bexI [of _ candidate])
    then show ?thesis
      unfolding control_flow_score_fold
      by (intro fold_max_one) (auto simp: similarity_score_le_one)
  qed
  have p2: "calculate_ast_matching_score lib candidate refs lang = Inr 1"
    if a: "candidate \<in> set refs \<and> lang \<noteq> ''python''"
  proof -
    from a
    have "\<exists>x\<in>set refs. similarity_score (extract_code_structures lib candidate lang)
                 (extract_code_structures lib x lang) = 1"
      by (auto simp: similarity_score_self intro!: bexI [of _ candidate])
    then have "calculate_structural_similarity lib candidate refs lang = 1"
      unfolding structural_similarity_fold
      by (intro fold_max_one) (auto simp: similarity_score_le_one)
    with a show ?thesis
      by (simp add: calculate_ast_matching_score_def)
  qed
  have p3: "calculate_ast_matching_score lib candidate refs ''python'' = Inr 1"
    if a: "candidate \<in> set refs \<and> ast_parse lib candidate = Inr t
        \<and> list_all (\<lambda>r. \<not> raises_other lib r) refs"
  proof -
    from a have "extract_ast_nodes t \<in> set (parsed_nodes lib refs)"
      by (auto intro: parsed_nodes_member)
    then have "\<exists>ns\<in>set (parsed_nodes lib refs).
                  similarity_score (extract_ast_nodes t) ns = 1"
      by (auto simp: similarity_score_self intro!: bexI [of _ "extract_ast_nodes t"])
    then have "fold (\<lambda>ns m. max m (similarity_score (extract_ast_nodes t) ns))
                    (parsed_nodes lib refs) 0 = 1"
      by (intro fold_max_one) (auto simp: similarity_score_le_one similarity_score_self)
    with a show ?thesis
      by (simp add: calculate_ast_matching_score_def python_ast_score_parsed)
  qed
  have p4: "calculate_ast_matching_score lib candidate refs ''python'' = Inr 0"
    if "ast_parse lib candidate = Inl SyntaxError"
    using that by (simp add: calculate_ast_matching_score_def calculate_python_ast_score_def)
  have p5: "calculate_ast_matching_score lib candidate refs ''python'' = Inl e"
    if "ast_parse lib candidate = Inl e \<and> e \<noteq> SyntaxError"
    using that
    by (simp add: calculate_ast_matching_score_def python_ast_score_candidate_raises)
  have p6: "\<exists>e'. calculate_ast_matching_score lib candidate refs ''python'' = Inl e'
            \<and> e' \<noteq> SyntaxError"
    if "ast_parse lib candidate = Inr t \<and> list_ex (raises_other lib) refs"
    using that python_ast_score_reference_raises [of lib candidate t refs]
    by (simp add: calculate_ast_matching_score_def)
  have p7: "calculate_control_flow_score lib candidate refs lang = 1"
    if a: "r \<in> set refs \<and> extract_control_flow lib candidate lang = []
        \<and> extract_control_flow lib r lang = []"
  proof -
    from a
    have "\<exists>x\<in>set refs. similarity_score (extract_control_flow lib candidate lang)
                 (extract_control_flow lib x lang) = 1"
      by (auto simp: similarity_score_both_empty intro!: bexI [of _ r])
    then show ?thesis
      unfolding control_flow_score_fold
      by (intro fold_max_one) (auto simp: similarity_score_le_one)
  qed
  have p8: "calculate_ast_matching_score lib candidate refs lang = Inr 1"
    if a: "r \<in> set refs \<and> lang \<noteq> ''python'' \<and> extract_code_structures lib candidate lang = []
        \<and> extract_code_structures lib r lang = []"
  proof -
    from a
    have "\<exists>x\<in>set refs. similarity_score (extract_code_structures lib candidate lang)
                 (extract_code_structures lib x lang) = 1"
      by (auto simp: similarity_score_both_empty intro!: bexI [of _ r])
    then have "calculate_structural_similarity lib candidate refs lang = 1"
      unfolding structural_similarity_fold
      by (intro fold_max_one) (auto simp: similarity_score_le_one)
    with a show ?thesis
      by (simp add: calculate_ast_matching_score_def)
  qed
  from p1 p2 p3 p4 p5 p6 p7 p8 show ?thesis by blast
qed

theorem identical_reference_unparsable_counterexample:
  "calculate_ast_matching_score sample_lib src_bad [src_bad] ''python'' = Inr 0
   \<and> calculate_ast_matching_score sample_lib src_bad [src_bad] ''python'' \<noteq> Inr 1
   \<and> calculate_ast_matching_score sample_lib src_deep [src_deep] ''python''
       = Inl (OtherException ''MemoryError'')
   \<and> calculate_ast_matching_score sample_lib src_py [src_deep, src_py] ''python''
       = Inl (OtherException ''MemoryError'')"
  by (simp add: calculate_ast_matching_score_def calculate_python_ast_score_def
        sample_parse_bad sample_parse_deep sample_parse_py)

theorem identical_reference_scores_witness:
  "calculate_control_flow_score sample_lib src_py [src_bad, src_py] ''java'' = 1
   \<and> calculate_ast_matching_score sample_lib src_py [src_bad, src_py] ''java'' = Inr 1
   \<and> calculate_ast_matching_score sample_lib src_py [src_bad, src_py] ''python'' = Inr 1
   \<and> calculate_ast_matching_score sample_lib src_bad [src_bad] ''python'' = Inr 0
   \<and> calculate_ast_matching_score sample_lib src_deep [src_deep] ''python''
       = Inl (OtherException ''MemoryError'')
   \<and> list_ex (raises_other sample_lib) [src_deep, src_py]
   \<and> (\<exists>e'. calculate_ast_matching_score sample_lib src_py [src_deep, src_py] ''python'' = Inl e'
          \<and> e' \<noteq> SyntaxError)
   \<and> extract_control_flow sample_lib src_bad ''python'' = []
   \<and> calculate_control_flow_score sample_lib src_bad [src_bad] ''python'' = 1
   \<and> extract_code_structures sample_lib src_py ''java'' = []
   \<and> extract_code_structures sample_lib src_bad ''java'' = []"
proof -
  have h: "list_all (\<lambda>r. \<not> raises_other sample_lib r) [src_bad, src_py]"
    by (simp add: raises_other_def sample_parse_py sample_parse_bad)
  have x: "list_ex (raises_other sample_lib) [src_deep, src_py]"
    by (simp add: raises_other_def sample_parse_deep)
  have cf: "extract_control_flow sample_lib src_bad ''python'' = []"
    by (simp add: extract_control_flow_def control_flow_patterns_def sample_defs)
  have st: "extract_code_structures sample_lib src_py ''java'' = []"
           "extract_code_structures sample_lib src_bad ''java'' = []"
    by (simp_all add: extract_code_structures_def sample_defs)
  from identical_reference_scores
         [where lib = sample_lib and candidate = src_py and refs = "[src_bad, src_py]"
            and lang = "''java''" and r = src_bad and e = SyntaxError
            and t = "Node ''Module'' [Node ''FunctionDef'' [Node ''arguments'' [],
                                        Node ''Return'' [Node ''Constant'' []]]]"]
       identical_reference_scores
         [where lib = sample_lib and candidate = src_bad and refs = "[src_bad]"
            and lang = "''python''" and r = src_bad and t = "Node ''Module'' []"
            and e = SyntaxError]
       identical_reference_scores
         [where lib = sample_lib and candidate = src_deep and refs = "[src_deep]"
            and lang = "''python''" and r = src_deep and t = "Node ''Module'' []"
            and e = "OtherException ''MemoryError''"]
       identical_reference_scores
         [where lib = sample_lib and candidate = src_py and refs = "[src_deep, src_py]"
            and lang = "''python''" and r = src_py and e = SyntaxError
            and t = "Node ''Module'' [Node ''FunctionDef'' [Node ''arguments'' [],
                                        Node ''Return'' [Node ''Constant'' []]]]"]
       h x cf st
  show ?thesis
    by (simp add: sample_parse_py sample_parse_bad sample_parse_deep)
qed

subsection \<open>Facts about the dataset aggregator\<close>

lemma evaluate_raises:
  assumes "calculate_ast_matching_score lib g [r] (detect_language g) = Inl e"
  shows "evaluate ev lib g (Str r) None = Inl e"
proof -
  obtain b where b: "calculate_bleu_score (tokenize_code lib g (detect_language g))
                        (map (\<lambda>ref. tokenize_code lib ref (detect_language g)) [r]) 4 = Inr b"
    using bleu_returns by blast
  obtain w where w: "calculate_weighted_bleu_score ev (tokenize_code lib g (detect_language g))
                        (map (\<lambda>ref. tokenize_code lib ref (detect_language g)) [r])
                        (detect_language g) = Inr w"
    using weighted_bleu_returns by blast
  from assms b w show ?thesis
    by (simp add: evaluate_def Let_def)
qed

lemma successful_scores_append:
  "successful_scores ev lib (xs @ ys) = successful_scores ev lib xs @ successful_scores ev lib ys"
  by (simp add: successful_scores_def)

lemma successful_scores_failure:
  "evaluate ev lib g (Str r) None = Inl e \<Longrightarrow> successful_scores ev lib ((g, r) # ys) = successful_scores ev lib ys"
  by (simp add: successful_scores_def)

lemma successful_scores_length:
  "list_all (evaluation_returns ev lib) ds \<Longrightarrow> length (successful_scores ev lib ds) = length ds"
  by (induction ds) (auto simp: successful_scores_def evaluation_returns_def split: sum.splits)

lemma evaluate_pairs_scores:
  "fst (evaluate_pairs ev lib i ds (acc, res)) = acc @ successful_scores ev lib ds"
proof (induction ds arbitrary: i acc res)
  case Nil
  then show ?case by (simp add: successful_scores_def)
next
  case (Cons p ds)
  obtain g r where p: "p = (g, r)" by (cases p)
  show ?case
  proof (cases "evaluate ev lib g (Str r) None")
    case (Inl e)
    with Cons [of "Suc i" acc res] p show ?thesis
      by (simp add: successful_scores_def)
  next
    case (Inr sc)
    with Cons [of "Suc i" "acc @ [sc]"] p show ?thesis
      by (simp add: successful_scores_def)
  qed
qed

lemma fold_max_Max: "fold max vs (v::real) = Max (set (v # vs))"
  by (rule Max.set_eq_fold [symmetric])

lemma fold_min_Min: "fold min vs (v::real) = Min (set (v # vs))"
  by (rule Min.set_eq_fold [symmetric])

lemma stats_of_values_spec: "values \<noteq> [] \<Longrightarrow> stats_of_values values = Inr (spec_stats values)"
proof (cases "values")
  case Nil
  assume "values \<noteq> []"
  with Nil show ?thesis by simp
next
  case (Cons v vs)
  have "fold max vs v = Max (set (v # vs))" "fold min vs v = Min (set (v # vs))"
    by (rule fold_max_Max, rule fold_min_Min)
  with Cons show ?thesis
    by (simp add: stats_of_values_def spec_stats_def population_std_def arithmetic_mean_def)
qed

lemma aggregate_metrics_spec:
  "scs \<noteq> [] \<Longrightarrow>
   aggregate_metrics scs ms = Inr (map (\<lambda>m. (m, spec_stats (map (\<lambda>sc. score_of sc m) scs))) ms)"
  by (induction ms) (simp_all add: stats_of_values_spec)

lemma evaluate_dataset_summary:
  assumes "successful_scores ev lib ds \<noteq> []"
  shows "fst (evaluate_dataset ev lib now results ds) =
           Inr (Some \<lparr>metric_table =
                        map (\<lambda>m. (m, spec_stats (map (\<lambda>sc. score_of sc m)
                                                      (successful_scores ev lib ds))))
                            metric_names,
                      total_pairs = length (successful_scores ev lib ds),
                      evaluation_time = now\<rparr>)"
proof -
  from assms have ne: "ds \<noteq> []" by (auto simp: successful_scores_def)
  obtain scs res where p: "evaluate_pairs ev lib 0 ds ([], results) = (scs, res)"
    by (cases "evaluate_pairs ev lib 0 ds ([], results)")
  with evaluate_pairs_scores [of ev lib 0 ds "[]" results]
  have scs: "scs = successful_scores ev lib ds" by simp
  have agg: "aggregate_metrics (successful_scores ev lib ds)
               [Codebleu, Bleu, Weighted_bleu, Ast_match, Control_flow] =
             Inr (map (\<lambda>m. (m, spec_stats (map (\<lambda>sc. score_of sc m)
                                                 (successful_scores ev lib ds))))
                      metric_names)"
    unfolding metric_names_def using assms by (rule aggregate_metrics_spec)
  from assms ne p scs show ?thesis
    by (simp add: evaluate_dataset_def agg del: aggregate_metrics.simps)
qed

lemma evaluate_dataset_none:
  assumes "successful_scores ev lib ds = []"
  shows "fst (evaluate_dataset ev lib now results ds) = Inr None"
proof -
  obtain scs res where p: "evaluate_pairs ev lib 0 ds ([], results) = (scs, res)"
    by (cases "evaluate_pairs ev lib 0 ds ([], results)")
  with evaluate_pairs_scores [of ev lib 0 ds "[]" results]
  have scs: "scs = successful_scores ev lib ds" by simp
  with assms p show ?thesis
    by (simp add: evaluate_dataset_def)
qed

lemma sample_evaluate_deep:
  "evaluate default_evaluator sample_lib src_deep (Str src_py) None =
     Inl (OtherException ''MemoryError'')"
proof -
  show ?thesis
    by (rule evaluate_raises)
       (simp add: detect_language_deep calculate_ast_matching_score_def
          calculate_python_ast_score_def sample_parse_deep)
qed

lemma sample_returns: "evaluation_returns default_evaluator sample_lib (src_py, src_py)"
  by (simp add: evaluation_returns_def sample_evaluate_py)

lemma sample_scores:
  "successful_scores default_evaluator sample_lib [(src_py, src_py), (src_py, src_py)]
     = [sample_result, sample_result]"
  "successful_scores default_evaluator sample_lib
     [(src_py, src_py), (src_py, src_py), (src_py, src_py)]
     = [sample_result, sample_result, sample_result]"
  by (simp_all add: successful_scores_def sample_evaluate_py sample_result_def)

lemma sample_score_of: "score_of sample_result m = 1"
  by (cases m) (simp_all add: sample_result_def)

lemma spec_stats_ones:
  "spec_stats [1, 1] = unit_stats" "spec_stats [1, 1, 1] = unit_stats"
  by (simp_all add: spec_stats_def population_std_def arithmetic_mean_def unit_stats_def)

subsection \<open>A dataset with one failing pair\<close>

text \<open>
  C8, as amended: for a dataset of at least two pairs in which the evaluation of exactly
  one pair raises an exception (and that of every other pair returns),
  \<open>evaluate_dataset\<close> raises nothing and returns a summary whose \<open>total_pairs\<close> is the
  number of pairs less one, and whose statistics for each metric are the mean, maximum,
  minimum and population standard deviation of the results of the other pairs: the
  summary of the dataset without the failing pair. (When the failing pair is the only
  one, the return value is the empty dictionary, not a summary.)
\<close>

theorem dataset_one_failure:
  assumes "evaluate ev lib g (Str r) None = Inl e"
    and "list_all (evaluation_returns ev lib) (pre @ post)"
    and "pre @ post \<noteq> []"
  shows "fst (evaluate_dataset ev lib now results (pre @ (g, r) # post)) =
           Inr (Some \<lparr>metric_table =
                        map (\<lambda>m. (m, spec_stats (map (\<lambda>sc. score_of sc m)
                                                      (successful_scores ev lib (pre @ post)))))
                            metric_names,
                      total_pairs = length (pre @ (g, r) # post) - 1,
                      evaluation_time = now\<rparr>)
         \<and> length (successful_scores ev lib (pre @ post)) = length (pre @ (g, r) # post) - 1
         \<and> fst (evaluate_dataset ev lib now results (pre @ (g, r) # post))
             = fst (evaluate_dataset ev lib now results (pre @ post))"
proof -
  have eq: "successful_scores ev lib (pre @ (g, r) # post) = successful_scores ev lib (pre @ post)"
    using assms(1) by (simp add: successful_scores_append successful_scores_failure)
  have len: "length (successful_scores ev lib (pre @ post)) = length (pre @ post)"
    using assms(2) by (rule successful_scores_length)
  with assms(3) have ne: "successful_scores ev lib (pre @ post) \<noteq> []" by auto
  from ne eq have ne': "successful_scores ev lib (pre @ (g, r) # post) \<noteq> []" by simp
  show ?thesis
    using evaluate_dataset_summary [OF ne', of now results]
          evaluate_dataset_summary [OF ne, of now results] eq len
    by simp
qed


theorem dataset_one_failure_witness:
  "evaluate default_evaluator sample_lib src_deep (Str src_py) None
     = Inl (OtherException ''MemoryError'')
   \<and> list_all (evaluation_returns default_evaluator sample_lib)
        ([(src_py, src_py)] @ [(src_py, src_py)])
   \<and> [(src_py, src_py)] @ [(src_py, src_py)] \<noteq> []
   \<and> fst (evaluate_dataset default_evaluator sample_lib ''2025-01-01T00:00:00'' []
            [(src_py, src_py), (src_deep, src_py), (src_py, src_py)])
       = Inr (Some \<lparr>metric_table = map (\<lambda>m. (m, unit_stats)) metric_names,
                    total_pairs = 2,
                    evaluation_time = ''2025-01-01T00:00:00''\<rparr>)"
proof -
  have h2: "list_all (evaluation_returns default_evaluator sample_lib)
              ([(src_py, src_py)] @ [(src_py, src_py)])"
    by (simp add: sample_returns)
  have h3: "[(src_py, src_py)] @ [(src_py, src_py)] \<noteq> []" by simp
  from dataset_one_failure [OF sample_evaluate_deep h2 h3, of "''2025-01-01T00:00:00''" "[]"]
       sample_evaluate_deep h2
  show ?thesis
    by (simp add: sample_scores sample_score_of spec_stats_ones)
qed

theorem dataset_single_failure_counterexample:
  "evaluate default_evaluator sample_lib src_deep (Str src_py) None
     = Inl (OtherException ''MemoryError'')
   \<and> fst (evaluate_dataset default_evaluator sample_lib ''2025-01-01T00:00:00'' []
            [(src_deep, src_py)]) = Inr None"
proof -
  have "successful_scores default_evaluator sample_lib [(src_deep, src_py)] = []"
    by (simp add: successful_scores_def sample_evaluate_deep)
  then show ?thesis
    by (simp add: evaluate_dataset_none sample_evaluate_deep)
qed

subsection \<open>The standard deviation of a metric\<close>

text \<open>
  C9: the standard deviation that \<open>evaluate_dataset\<close> reports for a metric is the
  population standard deviation of the values of the evaluated pairs: the divisor is the
  number of values, not that number less one. For the values 1.0, 1.0, 1.0 it is 0.0;
  for 0.0, 2.0 it is 1.0, where the sample formula gives the square root of 2.
\<close>

theorem dataset_population_std:
  "(fst (evaluate_dataset ev lib now results ds) = Inr (Some agg)
      \<and> (m, st) \<in> set (metric_table agg) \<longrightarrow>
      std st = population_std (map (\<lambda>sc. score_of sc m) (successful_scores ev lib ds))
      \<and> total_pairs agg = length (successful_scores ev lib ds))
   \<and> (vs \<noteq> [] \<longrightarrow>
        (\<exists>s. stats_of_values vs = Inr s
             \<and> std s = sqrt ((\<Sum>x\<leftarrow>vs. (x - sum_list vs / real (length vs))\<^sup>2)
                              / real (length vs))))
   \<and> (\<exists>s. stats_of_values [1, 1, 1] = Inr s \<and> std s = 0)
   \<and> (\<exists>s. stats_of_values [0, 2] = Inr s \<and> std s = 1 \<and> std s \<noteq> sample_std [0, 2])"
proof -
  have p1: "std st = population_std (map (\<lambda>sc. score_of sc m) (successful_scores ev lib ds))
      \<and> total_pairs agg = length (successful_scores ev lib ds)"
    if a: "fst (evaluate_dataset ev lib now results ds) = Inr (Some agg)
      \<and> (m, st) \<in> set (metric_table agg)"
  proof -
    have ne: "successful_scores ev lib ds \<noteq> []"
    proof
      assume "successful_scores ev lib ds = []"
      then have "fst (evaluate_dataset ev lib now results ds) = Inr None"
        by (rule evaluate_dataset_none)
      with a show False by simp
    qed
    from evaluate_dataset_summary [OF ne, of now results] a
    have agg: "agg = \<lparr>metric_table =
                        map (\<lambda>m. (m, spec_stats (map (\<lambda>sc. score_of sc m)
                                                      (successful_scores ev lib ds))))
                            metric_names,
                      total_pairs = length (successful_scores ev lib ds),
                      evaluation_time = now\<rparr>"
      by simp
    with a have "st = spec_stats (map (\<lambda>sc. score_of sc m) (successful_scores ev lib ds))"
      by auto
    with agg show ?thesis
      by (simp add: spec_stats_def)
  qed
  have p2: "\<exists>s. stats_of_values vs = Inr s
             \<and> std s = sqrt ((\<Sum>x\<leftarrow>vs. (x - sum_list vs / real (length vs))\<^sup>2)
                              / real (length vs))"
    if "vs \<noteq> []"
    using that
    by (simp add: stats_of_values_spec spec_stats_def population_std_def arithmetic_mean_def)
  have p3: "\<exists>s. stats_of_values [1, 1, 1] = Inr s \<and> std s = 0"
    by (simp add: stats_of_values_def)
  have "sqrt 2 \<noteq> 1" by simp
  then have p4: "\<exists>s. stats_of_values [0, 2] = Inr s \<and> std s = 1 \<and> std s \<noteq> sample_std [0, 2]"
    by (simp add: stats_of_values_def sample_std_def arithmetic_mean_def)
  from p1 p2 p3 p4 show ?thesis by blast
qed

theorem dataset_population_std_witness:
  "fst (evaluate_dataset default_evaluator sample_lib ''2025-01-01T00:00:00'' []
          [(src_py, src_py), (src_py, src_py), (src_py, src_py)])
     = Inr (Some \<lparr>metric_table = map (\<lambda>m. (m, unit_stats)) metric_names,
                  total_pairs = 3,
                  evaluation_time = ''2025-01-01T00:00:00''\<rparr>)
   \<and> (Codebleu, unit_stats) \<in> set (map (\<lambda>m. (m, unit_stats)) metric_names)
   \<and> std unit_stats = population_std [1, 1, 1]
   \<and> population_std [1, 1, 1] = 0
   \<and> [1, 1, 1] \<noteq> ([]::real list)"
proof -
  have ne: "successful_scores default_evaluator sample_lib
              [(src_py, src_py), (src_py, src_py), (src_py, src_py)] \<noteq> []"
    by (simp add: sample_scores)
  have ev: "fst (evaluate_dataset default_evaluator sample_lib ''2025-01-01T00:00:00'' []
          [(src_py, src_py), (src_py, src_py), (src_py, src_py)])
     = Inr (Some \<lparr>metric_table = map (\<lambda>m. (m, unit_stats)) metric_names,
                  total_pairs = 3,
                  evaluation_time = ''2025-01-01T00:00:00''\<rparr>)"
    using evaluate_dataset_summary [OF ne, of "''2025-01-01T00:00:00''" "[]"]
    by (simp add: sample_scores sample_score_of spec_stats_ones)
  have mem: "(Codebleu, unit_stats) \<in> set (map (\<lambda>m. (m, unit_stats)) metric_names)"
    by (simp add: metric_names_def)
  from dataset_population_std
         [where ev = default_evaluator and lib = sample_lib
            and now = "''2025-01-01T00:00:00''" and results = "[]"
            and ds = "[(src_py, src_py), (src_py, src_py), (src_py, src_py)]"
            and agg = "\<lparr>metric_table = map (\<lambda>m. (m, unit_stats)) metric_names,
                  total_pairs = 3,
                  evaluation_time = ''2025-01-01T00:00:00''\<rparr>"
            and m = Codebleu and st = unit_stats and vs = "[1, 1, 1]"]
       ev mem
  show ?thesis
    by (simp add: sample_scores sample_score_of population_std_def arithmetic_mean_def)
qed


end
